theory Spec2Isabelle
  imports Complex_Main "HOL-Library.AList"
begin

section \<open>Python values shared by the procflow models\<close>

text \<open>
  The exceptions the modelled code can end in. Every function that can raise
  returns \<open>error + 'a\<close>, with \<open>Inl\<close> for the exception.
  \<^item> \<open>KeyError k\<close>: a dict subscript with a missing key \<open>k\<close>;
  \<^item> \<open>TypeError\<close>: an operation on a value of the wrong type;
  \<^item> \<open>AttributeError a\<close>: a read of the attribute \<open>a\<close> that the object lacks;
  \<^item> \<open>ValueError msg\<close>: \<open>raise ValueError(msg)\<close> of the source;
  \<^item> \<open>UnboundLocalError v\<close>: a read of the local \<open>v\<close> that no executed
    statement has assigned;
  \<^item> \<open>PluginError n\<close>: a registry lookup of the unknown plugin \<open>n\<close>, or an
    exception raised inside an external plugin.
\<close>

datatype error =
    KeyError string
  | TypeError
  | AttributeError string
  | ValueError string
  | UnboundLocalError string
  | PluginError string

text \<open>Sequencing of steps that can raise: the first exception ends the computation.\<close>

definition bnd :: "error + 'a \<Rightarrow> ('a \<Rightarrow> error + 'b) \<Rightarrow> error + 'b" where
  "bnd m f = (case m of Inl e \<Rightarrow> Inl e | Inr x \<Rightarrow> f x)"

section \<open>Area definitions\<close>

text \<open>
  Values stored in \<open>sector_info\<close> and \<open>proj_dict\<close>: text (such as an
  \<open>adjustment_id\<close>) or a number (such as \<open>clat\<close>, \<open>lon_0\<close>).
\<close>

datatype info_val = IStr string | INum rat

text \<open>
  The attributes of a pyresample area definition that the procflows read.
  Python floats are modelled by the rationals they denote.
\<close>

record area_def =
  ad_name :: string
  area_id :: string
  description :: string
  sector_type :: string
  sector_info :: "(string \<times> info_val) list"
  proj_dict :: "(string \<times> info_val) list"
  x_size :: int
  y_size :: int
  pixel_size_x :: rat
  pixel_size_y :: rat
  area_extent :: "rat \<times> rat \<times> rat \<times> rat"

text \<open>
  Modelled from the spec: \<open>geoips.sector_utils.utils.is_sector_type\<close> is not among
  the sources. The spec calls the sector type a tag classifying an area definition
  (static, tc, reader_defined, self_register, unsectored); the test is whether the
  area definition carries the given tag.
\<close>

definition is_sector_type :: "area_def \<Rightarrow> string \<Rightarrow> bool" where
  "is_sector_type area sector_type_str = (sector_type area = sector_type_str)"

subsection \<open>\<open>verify_area_def\<close> (single\_source.py, lines 1100--1115)\<close>

text \<open>
  Datetimes are integers counting microseconds; \<open>timedelta(hours=h)\<close> is the
  number of microseconds in \<open>h\<close> hours.
\<close>

definition timedelta_hours :: "int \<Rightarrow> int" where
  "timedelta_hours h = h * 3600000000"

text \<open>
  \<open>filter_area_defs_actual_time\<close> is imported from
  \<open>geoips.sector_utils.utils\<close> and passed in as a parameter. The local
  \<open>new_area_defs\<close> is \<open>None\<close> while unassigned: the source assigns it only inside
  the \<open>if\<close>, and reads it right after.
\<close>

definition verify_area_def ::
  "(area_def list \<Rightarrow> int \<Rightarrow> area_def list) \<Rightarrow> area_def list \<Rightarrow> area_def \<Rightarrow> int \<Rightarrow> int \<Rightarrow> int
    \<Rightarrow> error + bool" where
  "verify_area_def filter_area_defs_actual_time area_defs check_area_def
      data_start_datetime data_end_datetime time_range_hours =
     (let new_area_defs =
        (if data_end_datetime - data_start_datetime < timedelta_hours time_range_hours
         then Some (filter_area_defs_actual_time area_defs data_start_datetime)
         else None)
      in case new_area_defs of
           None \<Rightarrow> Inl (UnboundLocalError ''new_area_defs'')
         | Some nads \<Rightarrow>
             if ad_name check_area_def \<notin> set (map ad_name nads)
             then Inr False
             else Inr True)"

subsection \<open>\<open>pad_area_definition\<close> (single\_source.py, lines 361--411)\<close>

text \<open>Python's \<open>int(x)\<close> on a float truncates toward zero.\<close>

definition py_int :: "rat \<Rightarrow> int" where
  "py_int q = (if 0 \<le> q then \<lfloor>q\<rfloor> else \<lceil>q\<rceil>)"

text \<open>Python's \<open>d[k]\<close> on a dict: \<open>KeyError\<close> when the key is missing.\<close>

definition subscript :: "(string \<times> 'v) list \<Rightarrow> string \<Rightarrow> error + 'v" where
  "subscript d k = (case map_of d k of None \<Rightarrow> Inl (KeyError k) | Some v \<Rightarrow> Inr v)"

text \<open>
  The two helpers \<open>pad_area_definition\<close> imports and that are not among the
  sources: the area generator \<open>clat_clon_resolution_shape\<close> (called with
  \<open>area_id\<close>, \<open>long_description\<close>, \<open>clat\<close>, \<open>clon\<close>, \<open>projection\<close>,
  \<open>num_lines\<close>, \<open>num_samples\<close>, \<open>pixel_width\<close>, \<open>pixel_height\<close>, in this
  order) and \<open>copy_sector_info\<close>. With them, \<open>float_mul\<close> is Python's product
  \<open>n * x\<close> of an integer and a scale factor: a floating-point product, rounded
  to the nearest double, which need not be the exact product (\<open>10 * 0.7\<close> is
  \<open>7.000000000000001\<close>).
\<close>

record pad_env =
  clat_clon_resolution_shape ::
    "string \<Rightarrow> string \<Rightarrow> info_val \<Rightarrow> info_val \<Rightarrow> string \<Rightarrow> int \<Rightarrow> int \<Rightarrow> rat \<Rightarrow> rat \<Rightarrow> area_def"
  copy_sector_info :: "area_def \<Rightarrow> area_def \<Rightarrow> area_def"
  float_mul :: "int \<Rightarrow> rat \<Rightarrow> rat"

text \<open>The size of the padded grid: \<open>(num_lines, num_samples)\<close>.\<close>

definition pad_shape ::
  "pad_env \<Rightarrow> area_def \<Rightarrow> string option \<Rightarrow> rat \<Rightarrow> rat \<Rightarrow> int \<times> int" where
  "pad_shape env area source_name x_scale_factor y_scale_factor =
     (let num_lines = py_int (float_mul env (y_size area) y_scale_factor);
          num_samples = py_int (float_mul env (x_size area) x_scale_factor)
      in if source_name \<noteq> None \<and> the source_name \<in> set [''amsu-b'', ''mhs'']
         then (y_size area * 1, x_size area * 5)
         else (num_lines, num_samples))"

definition pad_area_definition ::
  "pad_env \<Rightarrow> area_def \<Rightarrow> string option \<Rightarrow> bool \<Rightarrow> rat \<Rightarrow> rat \<Rightarrow> error + area_def" where
  "pad_area_definition env area source_name force_pad x_scale_factor y_scale_factor =
     (if is_sector_type area ''tc'' \<or> force_pad then
        (let (num_lines, num_samples) =
               pad_shape env area source_name x_scale_factor y_scale_factor;
             centre =
               (if is_sector_type area ''tc''
                then (case subscript (sector_info area) ''clat'' of
                        Inl e \<Rightarrow> Inl e
                      | Inr clat \<Rightarrow>
                          (case subscript (sector_info area) ''clon'' of
                             Inl e \<Rightarrow> Inl e
                           | Inr clon \<Rightarrow> Inr (clat, clon)))
                else (case subscript (proj_dict area) ''lat_0'' of
                        Inl e \<Rightarrow> Inl e
                      | Inr clat \<Rightarrow>
                          (case subscript (proj_dict area) ''lon_0'' of
                             Inl e \<Rightarrow> Inl e
                           | Inr clon \<Rightarrow> Inr (clat, clon))))
         in case centre of
              Inl e \<Rightarrow> Inl e
            | Inr (clat, clon) \<Rightarrow>
                Inr (copy_sector_info env area
                      (clat_clon_resolution_shape env (area_id area) (description area)
                         clat clon ''eqc'' num_lines num_samples
                         (pixel_size_x area) (pixel_size_y area))))
      else Inr area)"

section \<open>Duplicate-file removal (duplicate\_files.py)\<close>

text \<open>
  The per-format hooks delete files, so they act on the file system: a hook maps the
  file name, the \<open>remove_files\<close> flag and the file-system state \<open>'fs\<close> to the
  pair \<open>(removed, saved)\<close> and the new state.
\<close>

type_synonym 'fs dup_hook = "string \<Rightarrow> bool \<Rightarrow> 'fs \<Rightarrow> (string list \<times> string list) \<times> 'fs"

text \<open>
  What \<open>remove_duplicates\<close> looks up outside its own file:
  \<^item> \<open>plugin_module\<close>: \<open>filename_formats.get_plugin(name).__module__\<close>, the
    module of the registered filename-format plugin; \<open>None\<close> when no plugin of
    that name is registered (the registry raises);
  \<^item> \<open>module_attr\<close>: \<open>getattr(import_module(m), a)\<close>; \<open>None\<close> when
    \<open>hasattr\<close> is false.
\<close>

record 'fs dup_env =
  plugin_module :: "string \<Rightarrow> string option"
  module_attr :: "string \<Rightarrow> string \<Rightarrow> 'fs dup_hook option"

text \<open>
  The hook \<open>remove_duplicates\<close> finds for one entry of \<open>fnames\<close>: the error it
  raises when the entry has no \<open>filename_format\<close> or the registry does not know
  the format, otherwise the hook named \<open><filename_format>_remove_duplicates\<close> of
  the plugin's module, if that module defines it.
\<close>

definition find_hook ::
  "'fs dup_env \<Rightarrow> (string \<times> string) list \<Rightarrow> error + 'fs dup_hook option" where
  "find_hook env info =
     (case subscript info ''filename_format'' of
        Inl e \<Rightarrow> Inl e
      | Inr filename_format \<Rightarrow>
          (case plugin_module env filename_format of
             None \<Rightarrow> Inl (PluginError filename_format)
           | Some m \<Rightarrow> Inr (module_attr env m (filename_format @ ''_remove_duplicates''))))"

text \<open>
  \<open>fnames\<close> is a dict from file name to a dict of fields; the model keeps it as
  the list of its items in iteration order. The loop carries \<open>removed_files\<close>,
  \<open>saved_files\<close> and the file system.
\<close>

fun remove_duplicates_loop ::
  "'fs dup_env \<Rightarrow> bool \<Rightarrow> (string \<times> (string \<times> string) list) list
    \<Rightarrow> string list \<times> string list \<times> 'fs \<Rightarrow> error + (string list \<times> string list \<times> 'fs)" where
  "remove_duplicates_loop env remove_files [] acc = Inr acc"
| "remove_duplicates_loop env remove_files ((fname, info) # rest) (removed_files, saved_files, fs) =
     (case find_hook env info of
        Inl e \<Rightarrow> Inl e
      | Inr (Some fnamer_remove_dups) \<Rightarrow>
          (case fnamer_remove_dups fname remove_files fs of
             ((curr_removed_files, curr_saved_files), fs') \<Rightarrow>
               remove_duplicates_loop env remove_files rest
                 (removed_files @ curr_removed_files, saved_files @ curr_saved_files, fs'))
      | Inr None \<Rightarrow>
          remove_duplicates_loop env remove_files rest (removed_files, saved_files, fs))"

definition remove_duplicates ::
  "'fs dup_env \<Rightarrow> (string \<times> (string \<times> string) list) list \<Rightarrow> bool \<Rightarrow> 'fs
    \<Rightarrow> error + (string list \<times> string list \<times> 'fs)" where
  "remove_duplicates env fnames remove_files fs =
     remove_duplicates_loop env remove_files fnames ([], [], fs)"

text \<open>
  The claim's words, for comparison with the loop: the entries whose format defines
  the hook, and the hooks' results concatenated in the order of the entries.
\<close>

definition has_hook :: "'fs dup_env \<Rightarrow> string \<times> (string \<times> string) list \<Rightarrow> bool" where
  "has_hook env entry =
     (case find_hook env (snd entry) of Inr (Some h) \<Rightarrow> True | _ \<Rightarrow> False)"

definition resolvable :: "'fs dup_env \<Rightarrow> string \<times> (string \<times> string) list \<Rightarrow> bool" where
  "resolvable env entry = (case find_hook env (snd entry) of Inr h \<Rightarrow> True | Inl e \<Rightarrow> False)"

fun hooks_in_order ::
  "'fs dup_env \<Rightarrow> bool \<Rightarrow> (string \<times> (string \<times> string) list) list \<Rightarrow> 'fs
    \<Rightarrow> string list \<times> string list \<times> 'fs" where
  "hooks_in_order env remove_files [] fs = ([], [], fs)"
| "hooks_in_order env remove_files ((fname, info) # rest) fs =
     (case find_hook env info of
        Inr (Some h) \<Rightarrow>
          (case h fname remove_files fs of
             ((r, s), fs') \<Rightarrow>
               (case hooks_in_order env remove_files rest fs' of
                  (rs, ss, fs'') \<Rightarrow> (r @ rs, s @ ss, fs'')))
      | _ \<Rightarrow> hooks_in_order env remove_files rest fs)"


section \<open>Command-line overrides of an output spec (config\_based.py, lines 53--129)\<close>

text \<open>
  \<open>update_output_dict_from_command_line_args\<close> copies a dict shallowly and then
  writes through references into nested dicts, so the model keeps Python's object
  identity: a dict is an object in a heap, and a value is \<open>None\<close>, a string, a
  number, or a reference to a dict object. The heap is the list of its dict objects,
  the address of an object being its index; a new object is appended. A dict is the
  list of its items in insertion order, with distinct keys; an assignment to an
  existing key keeps its position (\<open>AList.update\<close>).

  A reference beyond the end of the heap does not arise from Python; the operations
  treat it as a value of the wrong type.
\<close>

datatype pyval = PNone | PStr string | PNum int | PRef nat

type_synonym pydict = "(string \<times> pyval) list"
type_synonym heap = "pydict list"

definition alloc :: "pydict \<Rightarrow> heap \<Rightarrow> pyval \<times> heap" where
  "alloc d h = (PRef (length h), h @ [d])"

text \<open>Python's \<open>k in s\<close> on strings: \<open>k\<close> occurs in \<open>s\<close> as a substring.\<close>

fun is_substring :: "string \<Rightarrow> string \<Rightarrow> bool" where
  "is_substring xs [] = (xs = [])"
| "is_substring xs (y # ys) = (take (length xs) (y # ys) = xs \<or> is_substring xs ys)"

text \<open>
  \<open>k in v\<close>, \<open>v[k]\<close>, \<open>v[k] = x\<close>, \<open>for key in v\<close> and \<open>v.copy()\<close> for a
  string \<open>k\<close>. On a dict they test, read, write and list the keys; on a string,
  \<open>in\<close> is the substring test and iteration lists the characters, while a
  subscript with a string key and an item assignment raise \<open>TypeError\<close>, as they
  do on \<open>None\<close> and on numbers.
\<close>

definition py_contains :: "heap \<Rightarrow> string \<Rightarrow> pyval \<Rightarrow> error + bool" where
  "py_contains h k v =
     (case v of
        PRef a \<Rightarrow> if a < length h then Inr (k \<in> fst ` set (h ! a)) else Inl TypeError
      | PStr s \<Rightarrow> Inr (is_substring k s)
      | _ \<Rightarrow> Inl TypeError)"

definition py_getitem :: "heap \<Rightarrow> pyval \<Rightarrow> string \<Rightarrow> error + pyval" where
  "py_getitem h v k =
     (case v of
        PRef a \<Rightarrow>
          if a < length h
          then (case map_of (h ! a) k of None \<Rightarrow> Inl (KeyError k) | Some x \<Rightarrow> Inr x)
          else Inl TypeError
      | _ \<Rightarrow> Inl TypeError)"

definition py_setitem :: "heap \<Rightarrow> pyval \<Rightarrow> string \<Rightarrow> pyval \<Rightarrow> error + heap" where
  "py_setitem h v k x =
     (case v of
        PRef a \<Rightarrow> if a < length h then Inr (h[a := AList.update k x (h ! a)]) else Inl TypeError
      | _ \<Rightarrow> Inl TypeError)"

definition py_iter :: "heap \<Rightarrow> pyval \<Rightarrow> error + string list" where
  "py_iter h v =
     (case v of
        PRef a \<Rightarrow> if a < length h then Inr (map fst (h ! a)) else Inl TypeError
      | PStr s \<Rightarrow> Inr (map (\<lambda>c. [c]) s)
      | _ \<Rightarrow> Inl TypeError)"

definition py_copy :: "heap \<Rightarrow> pyval \<Rightarrow> error + pyval \<times> heap" where
  "py_copy h v =
     (case v of
        PRef a \<Rightarrow> if a < length h then Inr (alloc (h ! a) h) else Inl TypeError
      | _ \<Rightarrow> Inl (AttributeError ''copy''))"

text \<open>
  Lines 115--118: the loop over the keys of \<open>output_fld_val["all"]\<close>, whose body
  assigns \<open>output_fld_val["all"][kwarg_name]\<close> to
  \<open>final_output_dict[output_fld_name]["all"][kwarg_name]\<close>. Every subscript is
  evaluated against the current heap, the right-hand side first.
\<close>

fun merge_all_fields ::
  "pyval \<Rightarrow> string \<Rightarrow> pyval \<Rightarrow> string list \<Rightarrow> heap \<Rightarrow> error + heap" where
  "merge_all_fields final_output_dict output_fld_name output_fld_val [] h = Inr h"
| "merge_all_fields final_output_dict output_fld_name output_fld_val (kwarg_name # rest) h =
     bnd (py_getitem h output_fld_val ''all'') (\<lambda>src.
     bnd (py_getitem h src kwarg_name) (\<lambda>x.
     bnd (py_getitem h final_output_dict output_fld_name) (\<lambda>fld.
     bnd (py_getitem h fld ''all'') (\<lambda>tgt.
     bnd (py_setitem h tgt kwarg_name x)
       (merge_all_fields final_output_dict output_fld_name output_fld_val rest)))))"

text \<open>
  Lines 77--85: the output field a command-line field stands for, and its value. For
  the two fields the loop passes, the name is the plural one and the value is a new
  dict with the single key \<open>all\<close>, bound to the command-line value.
\<close>

definition output_field :: "string \<Rightarrow> pyval \<Rightarrow> heap \<Rightarrow> string \<times> pyval \<times> heap" where
  "output_field cmdline_fld_name v h =
     (if cmdline_fld_name = ''filename_format_kwargs''
      then (''filename_formats_kwargs'', alloc [(''all'', v)] h)
      else if cmdline_fld_name = ''metadata_filename_format_kwargs''
      then (''metadata_filename_formats_kwargs'', alloc [(''all'', v)] h)
      else (cmdline_fld_name, v, h))"

text \<open>
  Lines 67--127: the body of the loop over the command-line fields, for one field.
  The tests read \<open>output_dict\<close>, the writes go to \<open>final_output_dict\<close>. Python's
  \<open>and\<close> evaluates its second operand only when the first is true; the second
  \<open>elif\<close> repeats the test of \<open>all\<close> in \<open>output_fld_val\<close>, so it is taken
  exactly when the first \<open>elif\<close> failed on its second operand.
\<close>

definition update_field ::
  "pyval \<Rightarrow> pyval \<Rightarrow> pyval \<Rightarrow> string \<Rightarrow> heap \<Rightarrow> error + heap" where
  "update_field output_dict final_output_dict command_line_args cmdline_fld_name h =
     bnd (py_contains h cmdline_fld_name command_line_args) (\<lambda>present.
     if \<not> present then Inr h else
     bnd (py_getitem h command_line_args cmdline_fld_name) (\<lambda>v.
     if v = PNone then Inr h else
     (case output_field cmdline_fld_name v h of
        (output_fld_name, output_fld_val, h1) \<Rightarrow>
     bnd (py_contains h1 output_fld_name output_dict) (\<lambda>in_output_dict.
     if \<not> in_output_dict
     then py_setitem h1 final_output_dict output_fld_name output_fld_val
     else
     bnd (py_contains h1 ''all'' output_fld_val) (\<lambda>all_in_val.
     if \<not> all_in_val
     then py_setitem h1 final_output_dict cmdline_fld_name output_fld_val
     else
     bnd (py_getitem h1 output_dict output_fld_name) (\<lambda>spec_fld.
     bnd (py_contains h1 ''all'' spec_fld) (\<lambda>all_in_spec.
     if \<not> all_in_spec
     then
       bnd (py_getitem h1 output_fld_val ''all'') (\<lambda>x.
       bnd (py_getitem h1 final_output_dict output_fld_name) (\<lambda>fld.
       py_setitem h1 fld ''all'' x))
     else
       bnd (py_getitem h1 output_fld_val ''all'') (\<lambda>src.
       bnd (py_iter h1 src) (\<lambda>kwarg_names.
       merge_all_fields final_output_dict output_fld_name output_fld_val kwarg_names h1)))))))))"

text \<open>Lines 53--129: the whole function; it returns the dict and the heap it leaves.\<close>

definition update_output_dict_from_command_line_args ::
  "heap \<Rightarrow> pyval \<Rightarrow> pyval \<Rightarrow> error + pyval \<times> heap" where
  "update_output_dict_from_command_line_args h output_dict command_line_args =
     (if command_line_args = PNone then Inr (output_dict, h)
      else
        bnd (py_copy h output_dict) (\<lambda>(final_output_dict, h0).
        bnd (update_field output_dict final_output_dict command_line_args
               ''filename_format_kwargs'' h0) (\<lambda>h1.
        bnd (update_field output_dict final_output_dict command_line_args
               ''metadata_filename_format_kwargs'' h1) (\<lambda>h2.
        Inr (final_output_dict, h2)))))"




section \<open>Datasets and the Alg-Xarray Builder (single\_source.py, lines 218--223, 791--1097)\<close>

text \<open>
  An xarray dataset, as far as the procflows look into it: its named variables (the
  arrays are of an abstract type \<open>'a\<close>; \<open>xarray.DataArray(x)\<close> and
  \<open>to_masked_array()\<close> only rewrap an array), its attributes, and the sizes of its
  dimensions. An attribute is text, a number or a dict of fields (such as
  \<open>filename_extra_fields\<close>). A dataset bundle is a dict from dataset key to
  dataset, kept as the list of its items in insertion order.
\<close>

datatype attr = AStr string | ANum rat | AFields "(string \<times> info_val) list"

record 'a dataset =
  variables :: "(string \<times> 'a) list"
  attrs :: "(string \<times> attr) list"
  dims :: "(string \<times> nat) list"

type_synonym 'a xarray_dict = "(string \<times> 'a dataset) list"

definition empty_dataset :: "'a dataset" where
  "empty_dataset = \<lparr>variables = [], attrs = [], dims = []\<rparr>"

text \<open>\<open>ds.source_name\<close>: xarray serves an attribute of \<open>attrs\<close> as an attribute of the object.\<close>

definition source_name_of :: "'a dataset \<Rightarrow> error + string" where
  "source_name_of ds =
     (case map_of (attrs ds) ''source_name'' of
        Some (AStr s) \<Rightarrow> Inr s
      | _ \<Rightarrow> Inl (AttributeError ''source_name''))"

text \<open>\<open>ds[name] = array\<close>.\<close>

definition set_variable :: "'a dataset \<Rightarrow> string \<Rightarrow> 'a \<Rightarrow> 'a dataset" where
  "set_variable ds name x = ds\<lparr>variables := AList.update name x (variables ds)\<rparr>"

text \<open>Lines 218--223.\<close>

definition add_filename_extra_field :: "'a dataset \<Rightarrow> string \<Rightarrow> info_val \<Rightarrow> error + 'a dataset" where
  "add_filename_extra_field xarray_obj field_name field_value =
     (let attrs1 =
        (if ''filename_extra_fields'' \<notin> fst ` set (attrs xarray_obj)
         then AList.update ''filename_extra_fields'' (AFields []) (attrs xarray_obj)
         else attrs xarray_obj)
      in case map_of attrs1 ''filename_extra_fields'' of
           Some (AFields extra) \<Rightarrow>
             Inr (xarray_obj\<lparr>attrs :=
               AList.update ''filename_extra_fields''
                 (AFields (AList.update field_name field_value extra)) attrs1\<rparr>)
         | _ \<Rightarrow> Inl TypeError)"

text \<open>
  An algorithm plugin is one callable with a declared family; the family decides
  with what it is called. The record has one function per shape of call that
  \<open>get_alg_xarray\<close> makes; \<open>'k\<close> is the type of the keyword arguments
  \<open>alg_args\<close>. \<open>alg_on_key\<close> is the call of line 910: the loop of line 890
  iterates over the bundle itself, that is over its keys, so what reaches the plugin
  there is a dataset key.
\<close>

record ('a, 'k) alg_plugin =
  alg_family :: string
  alg_on_xarray :: "'a dataset \<Rightarrow> 'k \<Rightarrow> error + 'a"
  alg_on_dict_area :: "'a xarray_dict \<Rightarrow> area_def \<Rightarrow> 'k \<Rightarrow> error + 'a"
  alg_on_dict :: "'a xarray_dict \<Rightarrow> 'k \<Rightarrow> error + 'a dataset"
  alg_on_key :: "string \<Rightarrow> 'k \<Rightarrow> error + 'a dataset"
  alg_xarray_to_xarray :: "'a dataset \<Rightarrow> 'k \<Rightarrow> error + 'a dataset"
  alg_on_list :: "'a list \<Rightarrow> 'k \<Rightarrow> error + 'a"

text \<open>
  An interpolation plugin is called as
  \<open>interp_plugin(area_def, input_xarray, output_xarray, varlist=..., **interp_args)\<close>.
  It may write into the object passed as \<open>output_xarray\<close>, so a call gives two
  datasets: the one it returns, and the state in which it leaves the object that was
  passed as \<open>output_xarray\<close>. A plugin that fills \<open>output_xarray\<close> and returns
  it gives the same dataset twice; one that builds a new dataset leaves the second
  as it was passed.
\<close>

type_synonym ('a, 'k) interp_plugin =
  "area_def \<Rightarrow> 'a dataset \<Rightarrow> 'a dataset \<Rightarrow> string list \<Rightarrow> 'k \<Rightarrow> error + ('a dataset \<times> 'a dataset)"

text \<open>
  What \<open>get_alg_xarray\<close> calls outside its file: the product metadata of
  \<open>geoips.dev.product\<close> (each by product name and source name), the plugin
  registries (\<open>None\<close> for a name that is not registered), \<open>sector_xarrays\<close>
  (always called with 6 hours before, 9 hours after, \<open>drop=True\<close>),
  \<open>copy_standard_metadata\<close> (always with \<open>force=False\<close>), and of xarray
  \<open>ds.isel(time=i)\<close> and \<open>xarray.concat(list, dim="dim_2")\<close>.
\<close>

record ('a, 'k) alg_env =
  get_required_variables :: "string \<Rightarrow> string \<Rightarrow> string list"
  get_requested_datasets_for_variables :: "string \<Rightarrow> string \<Rightarrow> (string \<times> string list) list"
  get_product_type :: "string \<Rightarrow> string \<Rightarrow> string"
  get_alg_name :: "string \<Rightarrow> string \<Rightarrow> string"
  get_alg_args :: "string \<Rightarrow> string \<Rightarrow> 'k"
  get_interp_name :: "string \<Rightarrow> string \<Rightarrow> string option"
  get_interp_args :: "string \<Rightarrow> string \<Rightarrow> 'k"
  algorithms_get_plugin :: "string \<Rightarrow> ('a, 'k) alg_plugin option"
  interpolators_get_plugin :: "string \<Rightarrow> ('a, 'k) interp_plugin option"
  sector_xarrays :: "'a xarray_dict \<Rightarrow> area_def \<Rightarrow> string list \<Rightarrow> 'a xarray_dict"
  copy_standard_metadata :: "'a dataset \<Rightarrow> 'a dataset \<Rightarrow> 'a dataset"
  isel_time :: "'a dataset \<Rightarrow> nat \<Rightarrow> 'a dataset"
  concat_dim_2 :: "'a dataset list \<Rightarrow> error + 'a dataset"

text \<open>A list of results in order: the first exception, or all the values.\<close>

fun those_results :: "(error + 'a) list \<Rightarrow> error + 'a list" where
  "those_results [] = Inr []"
| "those_results (r # rs) =
     bnd r (\<lambda>x. bnd (those_results rs) (\<lambda>xs. Inr (x # xs)))"

text \<open>A registry lookup: the registry raises for an unknown name.\<close>

definition get_plugin :: "(string \<Rightarrow> 'p option) \<Rightarrow> string \<Rightarrow> error + 'p" where
  "get_plugin registry name =
     (case registry name of None \<Rightarrow> Inl (PluginError name) | Some p \<Rightarrow> Inr p)"

text \<open>
  Lines 833--841 and 956--960: the interpolation plugin of a source, and the
  interpolation arguments. \<open>interp_args\<close> is assigned only when a plugin name is
  declared; otherwise it keeps its earlier value, if it has one.
\<close>

definition resolve_interp ::
  "('a, 'k) alg_env \<Rightarrow> string \<Rightarrow> string \<Rightarrow> 'k option
    \<Rightarrow> error + (('a, 'k) interp_plugin option \<times> 'k option)" where
  "resolve_interp env product_name source_name interp_args =
     (case get_interp_name env product_name source_name of
        None \<Rightarrow> Inr (None, interp_args)
      | Some interp_plugin_name \<Rightarrow>
          bnd (get_plugin (interpolators_get_plugin env) interp_plugin_name) (\<lambda>interp_plugin.
          Inr (Some interp_plugin, Some (get_interp_args env product_name source_name))))"

text \<open>
  A call of the interpolation plugin, after \<open>interp_args["varlist"] = varlist\<close>:
  reading \<open>interp_args\<close> fails when it was never assigned, and calling
  \<open>None\<close> is a \<open>TypeError\<close>.
\<close>

definition call_interp ::
  "('a, 'k) interp_plugin option \<Rightarrow> 'k option \<Rightarrow> area_def \<Rightarrow> 'a dataset \<Rightarrow> 'a dataset \<Rightarrow> string list
    \<Rightarrow> error + ('a dataset \<times> 'a dataset)" where
  "call_interp interp_plugin interp_args area input_xarray output_xarray varlist =
     (case interp_args of
        None \<Rightarrow> Inl (UnboundLocalError ''interp_args'')
      | Some args \<Rightarrow>
          (case interp_plugin of
             None \<Rightarrow> Inl TypeError
           | Some plugin \<Rightarrow> plugin area input_xarray output_xarray varlist args))"

text \<open>
  Lines 869--875, family \<open>xarray_to_numpy\<close>: the test is on the parameter
  \<open>variable_names\<close>, and \<open>set(None)\<close> is a \<open>TypeError\<close>.
\<close>

fun apply_xarray_to_numpy ::
  "('a, 'k) alg_plugin \<Rightarrow> 'k \<Rightarrow> string \<Rightarrow> string list option \<Rightarrow> 'a xarray_dict \<Rightarrow> 'a dataset
    \<Rightarrow> error + 'a dataset" where
  "apply_xarray_to_numpy alg_plugin alg_args product_name variable_names [] alg_xarray =
     Inr alg_xarray"
| "apply_xarray_to_numpy alg_plugin alg_args product_name variable_names ((dsname, ds) # rest)
      alg_xarray =
     (case variable_names of
        None \<Rightarrow> Inl TypeError
      | Some names \<Rightarrow>
          if set names \<subseteq> fst ` set (variables ds)
          then bnd (alg_on_xarray alg_plugin ds alg_args) (\<lambda>x.
               apply_xarray_to_numpy alg_plugin alg_args product_name variable_names rest
                 (set_variable alg_xarray product_name x))
          else apply_xarray_to_numpy alg_plugin alg_args product_name variable_names rest
                 alg_xarray)"

text \<open>
  Lines 887--909, family \<open>xarray_to_xarray\<close>: the inner loop runs over the keys
  of the bundle, \<open>varname in key\<close> is the substring test, and the first key that
  matches becomes \<open>input_alg_xarray\<close>. A later match evaluates
  \<open>curr_sect_xarrays[varname].shape\<close> for the log message, which raises: a
  \<open>KeyError\<close> when \<open>varname\<close> is no dataset key, else an
  \<open>AttributeError\<close> (a dataset has no \<open>shape\<close>).
\<close>

fun select_input_key ::
  "'a xarray_dict \<Rightarrow> string \<Rightarrow> string list \<Rightarrow> string option \<Rightarrow> error + string option" where
  "select_input_key curr_sect_xarrays varname [] input_alg_xarray = Inr input_alg_xarray"
| "select_input_key curr_sect_xarrays varname (curr_sect_xarray # rest) input_alg_xarray =
     (if is_substring varname curr_sect_xarray
      then (case input_alg_xarray of
              None \<Rightarrow> select_input_key curr_sect_xarrays varname rest (Some curr_sect_xarray)
            | Some chosen \<Rightarrow>
                if varname \<in> fst ` set curr_sect_xarrays
                then Inl (AttributeError ''shape'')
                else Inl (KeyError varname))
      else select_input_key curr_sect_xarrays varname rest input_alg_xarray)"

fun select_input ::
  "'a xarray_dict \<Rightarrow> string list \<Rightarrow> string option \<Rightarrow> error + string option" where
  "select_input curr_sect_xarrays [] input_alg_xarray = Inr input_alg_xarray"
| "select_input curr_sect_xarrays (varname # rest) input_alg_xarray =
     bnd (select_input_key curr_sect_xarrays varname (map fst curr_sect_xarrays) input_alg_xarray)
       (select_input curr_sect_xarrays rest)"

text \<open>
  Lines 915--920, family \<open>list_numpy_to_numpy\<close>: the arrays of the required
  variables, from every dataset that has them; \<open>alg_xarray\<close> becomes the last
  dataset that gave one.
\<close>

fun collect_numpys_var ::
  "string \<Rightarrow> 'a dataset list \<Rightarrow> 'a list \<times> 'a dataset \<Rightarrow> 'a list \<times> 'a dataset" where
  "collect_numpys_var varname [] acc = acc"
| "collect_numpys_var varname (curr_sect_xarray # rest) (numpys, alg_xarray) =
     (case map_of (variables curr_sect_xarray) varname of
        Some x \<Rightarrow> collect_numpys_var varname rest (numpys @ [x], curr_sect_xarray)
      | None \<Rightarrow> collect_numpys_var varname rest (numpys, alg_xarray))"

fun collect_numpys ::
  "string list \<Rightarrow> 'a dataset list \<Rightarrow> 'a list \<times> 'a dataset \<Rightarrow> 'a list \<times> 'a dataset" where
  "collect_numpys [] datasets acc = acc"
| "collect_numpys (varname # rest) datasets acc =
     collect_numpys rest datasets (collect_numpys_var varname datasets acc)"

text \<open>
  Lines 864--921: the algorithm applied before any interpolation, by family. A
  family that none of the branches names leaves the new dataset as it is, with the
  attributes copied from \<open>METADATA\<close>.
\<close>

definition apply_alg_first ::
  "('a, 'k) alg_plugin \<Rightarrow> 'k \<Rightarrow> string \<Rightarrow> string list \<Rightarrow> string list option \<Rightarrow> area_def
    \<Rightarrow> 'a xarray_dict \<Rightarrow> 'a xarray_dict \<Rightarrow> 'a dataset \<Rightarrow> error + 'a dataset" where
  "apply_alg_first alg_plugin alg_args product_name variables_req variable_names area
      sect_xarrays curr_sect_xarrays metadata =
     (let alg_xarray = empty_dataset\<lparr>attrs := attrs metadata\<rparr>
      in if alg_family alg_plugin = ''xarray_to_numpy''
         then apply_xarray_to_numpy alg_plugin alg_args product_name variable_names
                sect_xarrays alg_xarray
         else if alg_family alg_plugin = ''xarray_dict_area_def_to_numpy''
         then bnd (alg_on_dict_area alg_plugin sect_xarrays area alg_args) (\<lambda>x.
              Inr (set_variable alg_xarray product_name x))
         else if alg_family alg_plugin = ''xarray_dict_to_xarray''
         then alg_on_dict alg_plugin sect_xarrays alg_args
         else if alg_family alg_plugin = ''xarray_to_xarray''
         then bnd (select_input curr_sect_xarrays variables_req None) (\<lambda>input_alg_xarray.
              case input_alg_xarray of
                None \<Rightarrow>
                  Inl (ValueError
                    ''No required variables in any xarrays for xarray_to_xarray alg type'')
              | Some key \<Rightarrow> alg_on_key alg_plugin key alg_args)
         else if alg_family alg_plugin = ''list_numpy_to_numpy''
         then (case collect_numpys variables_req (map snd curr_sect_xarrays) ([], alg_xarray) of
                 (numpys, alg_xarray') \<Rightarrow>
                   bnd (alg_on_list alg_plugin numpys alg_args) (\<lambda>x.
                   Inr (set_variable alg_xarray' product_name x)))
         else Inr alg_xarray)"

text \<open>
  Lines 923--937: the end of the algorithm-first branch. \<open>final_xarray\<close> is
  assigned for the product types \<open>alg_cmap\<close> and \<open>alg_interp_cmap\<close> only, and
  again, from \<open>alg_xarray\<close>, when the area definition has an \<open>adjustment_id\<close>.
  The interpolation is called with \<open>alg_xarray\<close> both as input and as output, so
  after the call \<open>alg_xarray\<close> is the object in the state the plugin left it.
\<close>

definition finish_alg_first ::
  "('a, 'k) interp_plugin option \<Rightarrow> 'k option \<Rightarrow> string \<Rightarrow> string \<Rightarrow> area_def \<Rightarrow> 'a dataset
    \<Rightarrow> error + 'a dataset" where
  "finish_alg_first interp_plugin interp_args product_type product_name area alg_xarray =
     bnd (if product_type = ''alg_cmap'' then Inr (Some alg_xarray, alg_xarray)
          else if product_type = ''alg_interp_cmap''
          then bnd (call_interp interp_plugin interp_args area alg_xarray alg_xarray
                      [product_name])
                 (\<lambda>(returned, alg_xarray'). Inr (Some returned, alg_xarray'))
          else Inr (None, alg_xarray))
       (\<lambda>(final_xarray, alg_xarray').
     bnd (case map_of (sector_info area) ''adjustment_id'' of
            Some adjustment_id \<Rightarrow>
              bnd (add_filename_extra_field alg_xarray' ''adjustment_id'' adjustment_id)
                (\<lambda>stamped. Inr (Some stamped))
          | None \<Rightarrow> Inr final_xarray)
       (\<lambda>final_xarray.
     case final_xarray of
       None \<Rightarrow> Inl (UnboundLocalError ''final_xarray'')
     | Some result \<Rightarrow> Inr result))"

text \<open>
  Lines 946--1041, the interpolation-first loops. The state is \<open>interp_xarray\<close>,
  the plugin and arguments last resolved, and the loop variable \<open>sect_xarray\<close>,
  which line 1045 reads after the loops (\<open>None\<close> while no iteration has bound it).
\<close>

record ('a, 'k) interp_state =
  interp_xarray :: "'a dataset"
  interp_plugin_now :: "('a, 'k) interp_plugin option"
  interp_args_now :: "'k option"
  sect_xarray_now :: "'a dataset option"

text \<open>Lines 1014--1035: the interpolation of one variable from one dataset.\<close>

definition interpolate_variable ::
  "('a, 'k) alg_env \<Rightarrow> area_def \<Rightarrow> string \<Rightarrow> 'a dataset \<Rightarrow> ('a, 'k) interp_state
    \<Rightarrow> error + ('a, 'k) interp_state" where
  "interpolate_variable env area varname sect_xarray st =
     (case interp_args_now st of
        None \<Rightarrow> Inl (UnboundLocalError ''interp_args'')
      | Some args \<Rightarrow>
          (case map_of (dims sect_xarray) ''time'' of
             Some tdims \<Rightarrow>
               bnd (those_results
                      (map (\<lambda>i. call_interp (interp_plugin_now st) (interp_args_now st) area
                                   (isel_time env sect_xarray i) empty_dataset [varname])
                           [0 ..< tdims]))
                 (\<lambda>interp_list.
               bnd (concat_dim_2 env (map fst interp_list)) (\<lambda>joined.
               bnd (subscript (variables joined) varname) (\<lambda>x.
               Inr (st\<lparr>interp_xarray := set_variable (interp_xarray st) varname x\<rparr>))))
           | None \<Rightarrow>
               bnd (call_interp (interp_plugin_now st) (interp_args_now st) area sect_xarray
                      (interp_xarray st) [varname])
                 (\<lambda>(returned, left). Inr (st\<lparr>interp_xarray := returned\<rparr>))))"

text \<open>Lines 948--1035: the body of the inner loop, for one dataset of the bundle.\<close>

definition interp_dataset_step ::
  "('a, 'k) alg_env \<Rightarrow> area_def \<Rightarrow> string \<Rightarrow> bool \<Rightarrow> string list
    \<Rightarrow> (string \<times> string list) list \<Rightarrow> string \<Rightarrow> string \<times> 'a dataset \<Rightarrow> ('a, 'k) interp_state
    \<Rightarrow> error + ('a, 'k) interp_state" where
  "interp_dataset_step env area product_name resampled_read variables_req datasets_for_vars
      varname item st0 =
     (case item of (key, sect_xarray) \<Rightarrow>
      let st = st0\<lparr>sect_xarray_now := Some sect_xarray\<rparr> in
      if varname \<notin> fst ` set (variables sect_xarray) then Inr st
      else
        bnd (source_name_of sect_xarray) (\<lambda>source_name.
        bnd (resolve_interp env product_name source_name (interp_args_now st))
          (\<lambda>(interp_plugin, interp_args).
        let st1 = st\<lparr>interp_plugin_now := interp_plugin, interp_args_now := interp_args\<rparr> in
        if varname \<in> fst ` set datasets_for_vars \<and> \<not> resampled_read
        then bnd (subscript datasets_for_vars varname) (\<lambda>requested.
             if key \<in> set requested
             then interpolate_variable env area varname sect_xarray st1
             else Inr st1)
        else if varname \<in> fst ` set (variables (interp_xarray st1))
        then if set variables_req \<subseteq> fst ` set (variables sect_xarray)
             then interpolate_variable env area varname sect_xarray st1
             else Inr st1
        else interpolate_variable env area varname sect_xarray st1)))"

fun interp_datasets ::
  "('a, 'k) alg_env \<Rightarrow> area_def \<Rightarrow> string \<Rightarrow> bool \<Rightarrow> string list
    \<Rightarrow> (string \<times> string list) list \<Rightarrow> string \<Rightarrow> 'a xarray_dict \<Rightarrow> ('a, 'k) interp_state
    \<Rightarrow> error + ('a, 'k) interp_state" where
  "interp_datasets env area product_name resampled_read variables_req datasets_for_vars
      varname [] st = Inr st"
| "interp_datasets env area product_name resampled_read variables_req datasets_for_vars
      varname (item # rest) st =
     bnd (interp_dataset_step env area product_name resampled_read variables_req
            datasets_for_vars varname item st)
       (interp_datasets env area product_name resampled_read variables_req datasets_for_vars
          varname rest)"

fun interp_variables ::
  "('a, 'k) alg_env \<Rightarrow> area_def \<Rightarrow> string \<Rightarrow> bool \<Rightarrow> string list
    \<Rightarrow> (string \<times> string list) list \<Rightarrow> 'a xarray_dict \<Rightarrow> string list \<Rightarrow> ('a, 'k) interp_state
    \<Rightarrow> error + ('a, 'k) interp_state" where
  "interp_variables env area product_name resampled_read variables_req datasets_for_vars
      curr_sect_xarrays [] st = Inr st"
| "interp_variables env area product_name resampled_read variables_req datasets_for_vars
      curr_sect_xarrays (varname # rest) st =
     bnd (interp_datasets env area product_name resampled_read variables_req datasets_for_vars
            varname curr_sect_xarrays st)
       (interp_variables env area product_name resampled_read variables_req datasets_for_vars
          curr_sect_xarrays rest)"

text \<open>
  Lines 1048--1083: the algorithm applied to the interpolated dataset, by product
  type and family (\<open>alg_family\<close> is \<open>None\<close> when the product type asks for no
  algorithm).
\<close>

definition apply_alg_after_interp ::
  "('a, 'k) alg_plugin option \<Rightarrow> 'k \<Rightarrow> string \<Rightarrow> string \<Rightarrow> string list \<Rightarrow> 'a dataset
    \<Rightarrow> error + 'a dataset" where
  "apply_alg_after_interp alg_plugin alg_args product_type product_name variables_req ds =
     (if product_type = ''interp'' then Inr ds
      else case alg_plugin of
        None \<Rightarrow> Inl TypeError
      | Some plugin \<Rightarrow>
          if alg_family plugin = ''xarray_to_numpy''
          then bnd (alg_on_xarray plugin ds alg_args) (\<lambda>x. Inr (set_variable ds product_name x))
          else if alg_family plugin = ''xarray_to_xarray''
          then alg_xarray_to_xarray plugin ds alg_args
          else if alg_family plugin \<in> set [''single_channel'', ''channel_combination'',
                                             ''list_numpy_to_numpy'', ''rgb'']
          then bnd (those_results (map (subscript (variables ds)) variables_req)) (\<lambda>numpys.
               bnd (alg_on_list plugin numpys alg_args) (\<lambda>x.
               Inr (set_variable ds product_name x)))
          else Inl TypeError)"

text \<open>
  Lines 1043--1097: the end of the interpolation-first branch. The dataset that
  \<open>copy_standard_metadata\<close> reads is the last one the loops visited.
\<close>

definition finish_interp_first ::
  "('a, 'k) alg_env \<Rightarrow> ('a, 'k) alg_plugin option \<Rightarrow> 'k \<Rightarrow> string \<Rightarrow> string \<Rightarrow> string list
    \<Rightarrow> area_def \<Rightarrow> ('a, 'k) interp_state \<Rightarrow> error + 'a dataset" where
  "finish_interp_first env alg_plugin alg_args product_type product_name variables_req area st =
     (case sect_xarray_now st of
        None \<Rightarrow> Inl (UnboundLocalError ''sect_xarray'')
      | Some sect_xarray \<Rightarrow>
          bnd (apply_alg_after_interp alg_plugin alg_args product_type product_name
                 variables_req (copy_standard_metadata env sect_xarray (interp_xarray st)))
            (\<lambda>processed.
          let copied = copy_standard_metadata env sect_xarray processed;
              named = copied\<lparr>attrs :=
                        AList.update ''product_name'' (AStr product_name) (attrs copied)\<rparr>
          in case map_of (sector_info area) ''adjustment_id'' of
               Some adjustment_id \<Rightarrow>
                 add_filename_extra_field named ''adjustment_id'' adjustment_id
             | None \<Rightarrow> Inr named))"

text \<open>
  Lines 791--1097. \<open>not variable_names\<close> holds for \<open>None\<close> and for the empty
  list.
\<close>

definition get_alg_xarray ::
  "('a, 'k) alg_env \<Rightarrow> 'a xarray_dict \<Rightarrow> area_def \<Rightarrow> string \<Rightarrow> bool \<Rightarrow> bool \<Rightarrow> string list option
    \<Rightarrow> error + 'a dataset" where
  "get_alg_xarray env sect_xarrays area product_name resector resampled_read variable_names =
     bnd (subscript sect_xarrays ''METADATA'') (\<lambda>metadata.
     bnd (source_name_of metadata) (\<lambda>source_name.
     let variables_req =
           (if variable_names = None \<or> variable_names = Some []
            then get_required_variables env product_name source_name
            else the variable_names);
         datasets_for_vars = get_requested_datasets_for_variables env product_name source_name;
         product_type = get_product_type env product_name source_name;
         alg_args = get_alg_args env product_name source_name
     in
     bnd (if product_type \<in> set [''alg'', ''alg_cmap'', ''interp_alg'', ''interp_alg_cmap'',
                                    ''alg_interp_cmap'']
          then bnd (get_plugin (algorithms_get_plugin env)
                      (get_alg_name env product_name source_name))
                 (\<lambda>plugin. Inr (Some plugin))
          else Inr None) (\<lambda>alg_plugin.
     bnd (resolve_interp env product_name source_name None) (\<lambda>(interp_plugin, interp_args).
     let curr_sect_xarrays =
           (if resector then sector_xarrays env sect_xarrays area variables_req
            else sect_xarrays)
     in
     if product_type \<in> set [''alg_cmap'', ''alg_interp_cmap'', ''alg'']
     then
       (case alg_plugin of
          None \<Rightarrow> Inl TypeError
        | Some plugin \<Rightarrow>
            bnd (apply_alg_first plugin alg_args product_name variables_req variable_names area
                   sect_xarrays curr_sect_xarrays metadata)
              (finish_alg_first interp_plugin interp_args product_type product_name area))
     else
       bnd (interp_variables env area product_name resampled_read variables_req
              datasets_for_vars curr_sect_xarrays variables_req
              \<lparr>interp_xarray = empty_dataset, interp_plugin_now = interp_plugin,
               interp_args_now = interp_args, sect_xarray_now = None\<rparr>)
         (finish_interp_first env alg_plugin alg_args product_type product_name variables_req
            area)))))"
section \<open>Render dispatch (single\_source.py, lines 63--73, 102--137, 259--345, 472--607)\<close>

text \<open>
  The dict of output file names maps a file name to the fields that describe it
  (among them \<open>filename_format\<close>); the dict of metadata file names has the
  metadata file name as key, which is \<open>None\<close> for an output without metadata.
  Both are kept as the lists of their items in insertion order.
\<close>

type_synonym fname_dict = "(string \<times> (string \<times> string) list) list"
type_synonym metadata_fname_dict = "(string option \<times> (string \<times> string) list) list"

text \<open>
  What an output-format plugin is called with, by family: the positional and
  keyword arguments that the procflow chooses (the keyword arguments taken from the
  output spec, and the product's display name, are left out). \<open>'c\<close> is the type
  of the colormap information \<open>mpl_colors_info\<close>.
\<close>

datatype ('a, 'c) out_args =
    XarrayData "'a dataset" "string list" "string list"
  | Image area_def "'a dataset" string "string list" "'c option"
  | Unprojected "'a dataset" string "string list" "'c option"
  | ImageOverlay area_def "'a dataset" string "string list" "'c option"
  | XrdictVarlistOutfnames "'a xarray_dict" "string list" "string list"
  | XrdictAreaProductOutfnames "'a xarray_dict option" "area_def option" string "string list"
      "'c option"
  | XrdictAreaProduct "'a xarray_dict option" "area_def option" string "'c option"
  | StandardMetadata "area_def option" "'a dataset" string string

text \<open>
  An output-format plugin: its declared family and its call. The call returns the
  list of files it wrote; \<open>None\<close> stands for any return value that is not a list
  of file names (a plugin that returns nothing returns \<open>None\<close>).
\<close>

record ('a, 'c) out_plugin =
  out_family :: string
  out_call :: "('a, 'c) out_args \<Rightarrow> error + string list option"

text \<open>
  What the render dispatch calls outside the functions modelled here, for an output
  spec of abstract type \<open>'o\<close>: \<open>get_output_format\<close>, the registry of output
  formats, \<open>get_output_filenames\<close> (lines 140--202, with the filename formats of
  the output spec; its arguments here are the output spec, the product name, the
  dataset, the area definition and \<open>supported_filenamer_types\<close>),
  \<open>get_cmap_name\<close>, the colormap plugin called with its arguments (by colormap
  name, product name and source name), \<open>get_metadata_output_format\<close> and
  \<open>get_product_type\<close>.
\<close>

record ('a, 'c, 'o) plot_env =
  get_output_format :: "'o \<Rightarrow> string"
  output_formats_get_plugin :: "string \<Rightarrow> ('a, 'c) out_plugin option"
  get_output_filenames ::
    "'o \<Rightarrow> string \<Rightarrow> 'a dataset \<Rightarrow> area_def option \<Rightarrow> string list option
      \<Rightarrow> error + (fname_dict \<times> metadata_fname_dict)"
  get_cmap_name :: "string \<Rightarrow> string \<Rightarrow> string option"
  colormap_info :: "string \<Rightarrow> string \<Rightarrow> string \<Rightarrow> error + 'c"
  get_metadata_output_format :: "'o \<Rightarrow> string"
  product_type_of :: "string \<Rightarrow> string \<Rightarrow> string"

text \<open>Lines 63--89: the module's constants.\<close>

definition OUTPUT_FAMILIES_WITH_OUTFNAMES_ARG :: "string list" where
  "OUTPUT_FAMILIES_WITH_OUTFNAMES_ARG =
     [''xrdict_varlist_outfnames_to_outlist'', ''xrdict_area_product_outfnames_to_outlist'']"

definition OUTPUT_FAMILIES_WITH_NO_OUTFNAMES_ARG :: "string list" where
  "OUTPUT_FAMILIES_WITH_NO_OUTFNAMES_ARG = [''xrdict_area_product_to_outlist'']"

definition FILENAME_FORMATS_FOR_XARRAY_DICT_TO_OUTPUT_FORMAT :: "string list" where
  "FILENAME_FORMATS_FOR_XARRAY_DICT_TO_OUTPUT_FORMAT =
     [''xarray_metadata_to_filename'', ''xarray_area_product_to_filename'']"

definition PRODUCT_FAMILIES_FOR_XARRAY_DICT_TO_OUTPUT_FORMAT :: "string list" where
  "PRODUCT_FAMILIES_FOR_XARRAY_DICT_TO_OUTPUT_FORMAT =
     [''sectored_xarray_dict_to_output_format'', ''unsectored_xarray_dict_to_output_format'',
      ''unsectored_xarray_dict_area_to_output_format'']"

definition did_not_produce :: error where
  "did_not_produce = ValueError ''Did not produce expected products''"

text \<open>
  The comparison \<open>output_products != list(output_fnames.keys())\<close> followed by the
  \<open>raise\<close>, as it stands after each call that was given the file names.
\<close>

definition check_products :: "string list option \<Rightarrow> fname_dict \<Rightarrow> error + string list option" where
  "check_products output_products output_fnames =
     (if output_products \<noteq> Some (map fst output_fnames) then Inl did_not_produce
      else Inr output_products)"

text \<open>
  Lines 102--137, \<open>output_all_metadata\<close>: one metadata file per output file, the
  two dicts zipped by position. \<open>final_outputs\<close> starts as a copy of
  \<open>output_fnames\<close>.
\<close>

fun output_all_metadata_loop ::
  "('a, 'c, 'o) plot_env \<Rightarrow> 'o \<Rightarrow> metadata_fname_dict \<Rightarrow> 'a dataset \<Rightarrow> area_def option
    \<Rightarrow> (string option \<times> string) list \<Rightarrow> fname_dict \<Rightarrow> error + fname_dict" where
  "output_all_metadata_loop env output_dict metadata_fnames xarray_obj area [] final_outputs =
     Inr final_outputs"
| "output_all_metadata_loop env output_dict metadata_fnames xarray_obj area
      ((metadata_fname_opt, output_fname) # rest) final_outputs =
     (case metadata_fname_opt of
        None \<Rightarrow>
          output_all_metadata_loop env output_dict metadata_fnames xarray_obj area rest
            final_outputs
      | Some metadata_fname \<Rightarrow>
          bnd (get_plugin (output_formats_get_plugin env) (get_metadata_output_format env output_dict))
            (\<lambda>output_plugin.
          if out_family output_plugin = ''standard_metadata''
          then
            bnd (out_call output_plugin
                   (StandardMetadata area xarray_obj metadata_fname output_fname))
              (\<lambda>curr_outputs.
            if curr_outputs \<noteq> Some [metadata_fname] then Inl did_not_produce
            else
              (case map_of metadata_fnames (Some metadata_fname) of
                 None \<Rightarrow> Inl (KeyError metadata_fname)
               | Some info \<Rightarrow>
                   output_all_metadata_loop env output_dict metadata_fnames xarray_obj area rest
                     (AList.update metadata_fname info final_outputs)))
          else
            output_all_metadata_loop env output_dict metadata_fnames xarray_obj area rest
              final_outputs))"

definition output_all_metadata ::
  "('a, 'c, 'o) plot_env \<Rightarrow> 'o \<Rightarrow> fname_dict \<Rightarrow> metadata_fname_dict \<Rightarrow> 'a dataset
    \<Rightarrow> area_def option \<Rightarrow> error + fname_dict" where
  "output_all_metadata env output_dict output_fnames metadata_fnames xarray_obj area =
     output_all_metadata_loop env output_dict metadata_fnames xarray_obj area
       (zip (map fst metadata_fnames) (map fst output_fnames)) output_fnames"

text \<open>
  Lines 509--514: the colormap of the product, resolved once per render and only
  for the families other than \<open>xarray_data\<close>.
\<close>

definition resolve_mpl_colors_info ::
  "('a, 'c, 'o) plot_env \<Rightarrow> string \<Rightarrow> 'a dataset \<Rightarrow> error + 'c option" where
  "resolve_mpl_colors_info env product_name alg_xarray =
     bnd (source_name_of alg_xarray) (\<lambda>source_name.
     case get_cmap_name env product_name source_name of
       None \<Rightarrow> Inr None
     | Some cmap_plugin_name \<Rightarrow>
         bnd (colormap_info env cmap_plugin_name product_name source_name) (\<lambda>info.
         Inr (Some info)))"

text \<open>Lines 472--607.\<close>

definition plot_data ::
  "('a, 'c, 'o) plot_env \<Rightarrow> 'o \<Rightarrow> 'a dataset \<Rightarrow> area_def \<Rightarrow> string \<Rightarrow> 'a xarray_dict option
    \<Rightarrow> bool \<Rightarrow> error + fname_dict" where
  "plot_data env output_dict alg_xarray area product_name fused_xarray_dict no_output =
     bnd (get_plugin (output_formats_get_plugin env) (get_output_format env output_dict))
       (\<lambda>output_plugin.
     bnd (if no_output \<or> out_family output_plugin \<in> set OUTPUT_FAMILIES_WITH_NO_OUTFNAMES_ARG
          then Inr ([], [])
          else get_output_filenames env output_dict product_name alg_xarray (Some area) None)
       (\<lambda>(output_fnames, metadata_fnames).
     bnd (if out_family output_plugin = ''xarray_data''
          then
            bnd (out_call output_plugin
                   (XarrayData alg_xarray [product_name, ''latitude'', ''longitude'']
                      (map fst output_fnames)))
              (\<lambda>output_products. check_products output_products output_fnames)
          else
            bnd (resolve_mpl_colors_info env product_name alg_xarray) (\<lambda>mpl_colors_info.
            bnd (get_plugin (output_formats_get_plugin env) (get_output_format env output_dict))
              (\<lambda>output_plugin.
            if out_family output_plugin = ''image''
            then
              bnd (out_call output_plugin
                     (Image area alg_xarray product_name (map fst output_fnames) mpl_colors_info))
                (\<lambda>output_products. check_products output_products output_fnames)
            else if out_family output_plugin = ''unprojected''
            then
              bnd (out_call output_plugin
                     (Unprojected alg_xarray product_name (map fst output_fnames) mpl_colors_info))
                (\<lambda>output_products. check_products output_products output_fnames)
            else if out_family output_plugin = ''image_overlay''
            then
              bnd (out_call output_plugin
                     (ImageOverlay area alg_xarray product_name (map fst output_fnames)
                        mpl_colors_info))
                (\<lambda>output_products. check_products output_products output_fnames)
            else if out_family output_plugin = ''xrdict_area_product_outfnames_to_outlist''
            then
              bnd (out_call output_plugin
                     (XrdictAreaProductOutfnames fused_xarray_dict (Some area) product_name
                        (map fst output_fnames) mpl_colors_info))
                (\<lambda>output_products. check_products output_products output_fnames)
            else if out_family output_plugin = ''xrdict_area_product_to_outlist''
            then
              out_call output_plugin
                (XrdictAreaProduct fused_xarray_dict (Some area) product_name mpl_colors_info)
            else Inl (ValueError ''Unsupported output family''))))
       (\<lambda>output_products.
     output_all_metadata env output_dict output_fnames metadata_fnames alg_xarray (Some area))))"

text \<open>
  Lines 259--345. \<open>final_products\<close> is assigned only for the families that take
  the file names; the \<open>return\<close> reads it in every case.
\<close>

definition process_xarray_dict_to_output_format ::
  "('a, 'c, 'o) plot_env \<Rightarrow> 'a xarray_dict \<Rightarrow> string list \<Rightarrow> string \<Rightarrow> 'o \<Rightarrow> area_def option
    \<Rightarrow> error + fname_dict" where
  "process_xarray_dict_to_output_format env xobjs variables_req product_name output_dict area =
     bnd (subscript xobjs ''METADATA'') (\<lambda>metadata.
     bnd (source_name_of metadata) (\<lambda>source_name.
     if product_type_of env product_name source_name
          \<notin> set PRODUCT_FAMILIES_FOR_XARRAY_DICT_TO_OUTPUT_FORMAT
     then Inl TypeError
     else
     bnd (get_plugin (output_formats_get_plugin env) (get_output_format env output_dict))
       (\<lambda>output_plugin.
     bnd (if out_family output_plugin \<in> set OUTPUT_FAMILIES_WITH_OUTFNAMES_ARG
          then bnd (get_output_filenames env output_dict product_name metadata area
                      (Some FILENAME_FORMATS_FOR_XARRAY_DICT_TO_OUTPUT_FORMAT))
                 (\<lambda>names. Inr (Some names))
          else Inr None)
       (\<lambda>names.
     bnd (if out_family output_plugin = ''xrdict_varlist_outfnames_to_outlist''
          then (case names of
                  None \<Rightarrow> Inl (UnboundLocalError ''output_fnames'')
                | Some (output_fnames, metadata_fnames) \<Rightarrow>
                    bnd (out_call output_plugin
                           (XrdictVarlistOutfnames xobjs variables_req (map fst output_fnames)))
                      (\<lambda>curr_products. check_products curr_products output_fnames))
          else if out_family output_plugin = ''xrdict_area_product_outfnames_to_outlist''
          then (case names of
                  None \<Rightarrow> Inl (UnboundLocalError ''output_fnames'')
                | Some (output_fnames, metadata_fnames) \<Rightarrow>
                    bnd (out_call output_plugin
                           (XrdictAreaProductOutfnames (Some xobjs) area product_name
                              (map fst output_fnames) None))
                      (\<lambda>curr_products. check_products curr_products output_fnames))
          else if out_family output_plugin = ''xrdict_area_product_to_outlist''
          then out_call output_plugin (XrdictAreaProduct (Some xobjs) area product_name None)
          else Inl TypeError)
       (\<lambda>curr_products.
     if out_family output_plugin \<in> set OUTPUT_FAMILIES_WITH_OUTFNAMES_ARG
     then (case names of
             None \<Rightarrow> Inl (UnboundLocalError ''output_fnames'')
           | Some (output_fnames, metadata_fnames) \<Rightarrow>
               output_all_metadata env output_dict output_fnames metadata_fnames metadata area)
     else Inl (UnboundLocalError ''final_products''))))))"

text \<open>
  For the statement of the render contract: the call that \<open>plot_data\<close> makes for
  a family (\<open>None\<close> for a family it does not support), and the call that
  \<open>process_xarray_dict_to_output_format\<close> makes.
\<close>

definition plot_call ::
  "string \<Rightarrow> 'a dataset \<Rightarrow> area_def \<Rightarrow> string \<Rightarrow> 'a xarray_dict option \<Rightarrow> string list
    \<Rightarrow> 'c option \<Rightarrow> ('a, 'c) out_args option" where
  "plot_call family alg_xarray area product_name fused_xarray_dict fnames mpl_colors_info =
     (if family = ''xarray_data''
      then Some (XarrayData alg_xarray [product_name, ''latitude'', ''longitude''] fnames)
      else if family = ''image''
      then Some (Image area alg_xarray product_name fnames mpl_colors_info)
      else if family = ''unprojected''
      then Some (Unprojected alg_xarray product_name fnames mpl_colors_info)
      else if family = ''image_overlay''
      then Some (ImageOverlay area alg_xarray product_name fnames mpl_colors_info)
      else if family = ''xrdict_area_product_outfnames_to_outlist''
      then Some (XrdictAreaProductOutfnames fused_xarray_dict (Some area) product_name fnames
                   mpl_colors_info)
      else if family = ''xrdict_area_product_to_outlist''
      then Some (XrdictAreaProduct fused_xarray_dict (Some area) product_name mpl_colors_info)
      else None)"

definition xrdict_call ::
  "string \<Rightarrow> 'a xarray_dict \<Rightarrow> string list \<Rightarrow> area_def option \<Rightarrow> string \<Rightarrow> string list
    \<Rightarrow> ('a, 'c) out_args option" where
  "xrdict_call family xobjs variables_req area product_name fnames =
     (if family = ''xrdict_varlist_outfnames_to_outlist''
      then Some (XrdictVarlistOutfnames xobjs variables_req fnames)
      else if family = ''xrdict_area_product_outfnames_to_outlist''
      then Some (XrdictAreaProductOutfnames (Some xobjs) area product_name fnames None)
      else if family = ''xrdict_area_product_to_outlist''
      then Some (XrdictAreaProduct (Some xobjs) area product_name None)
      else None)"

section \<open>The orchestrators: coverage gate and memoization\<close>

text \<open>
  The part of the two procflows that builds one product, checks its coverage and
  renders it: lines 1394--1535 of \<open>single_source\<close> (single\_source.py) for one
  area definition, and lines 1266--1534 of \<open>config_based\<close> (config\_based.py),
  the loops over the output types and products of one (area definition, sector type)
  iteration. What they call beyond the functions modelled above is collected in one
  environment; \<open>'o\<close> is the type of an output spec (for \<open>single_source\<close> the
  command-line arguments serve as the output spec).
  \<^item> \<open>coverage\<close>: the coverage function of the product called on the dataset,
    by field name (\<open>image_production_covg\<close> or \<open>fname_covg\<close>), product, source
    and output spec: \<open>get_covg_from_product\<close> and \<open>get_covg_args_from_product\<close>
    followed by the call; coverage values are numbers (floats, as rationals);
  \<^item> \<open>get_minimum_coverage\<close>: the override of the output spec, if any;
  \<^item> \<open>product_names\<close>, \<open>requested_sector_type\<close>: fields of the output spec;
  \<^item> \<open>update_output_dict\<close>: \<open>update_output_dict_from_command_line_args\<close>
    with the command-line arguments of the run;
  \<^item> \<open>produce_current_time\<close>: the time filter, by output type;
  \<^item> \<open>set_comparison_path\<close>: the comparison path and module of an output
    spec, product and output type;
  \<^item> \<open>background\<close>: the background dataset to combine, that is
    \<open>bg_alg_xarrays[sector_type]\<close> when background files are given, the output
    spec has \<open>background_products\<close> and the sector type has a background;
  \<^item> \<open>remove_duplicates_requested\<close>: the output spec has a
    \<open>remove_duplicates\<close> that is not \<open>None\<close>;
  \<^item> \<open>product_db\<close> and \<open>write_to_database\<close> (by file and product name);
  \<^item> \<open>count_valid\<close>: \<open>array.count()\<close>, the number of valid values.
\<close>

record ('a, 'k, 'c, 'o, 'fs) flow_env =
  alg_part :: "('a, 'k) alg_env"
  plot_part :: "('a, 'c, 'o) plot_env"
  dup_part :: "'fs dup_env"
  coverage :: "string \<Rightarrow> string \<Rightarrow> string \<Rightarrow> 'o \<Rightarrow> 'a dataset \<Rightarrow> area_def \<Rightarrow> error + rat"
  get_minimum_coverage :: "string \<Rightarrow> 'o \<Rightarrow> rat option"
  product_names :: "'o \<Rightarrow> string list"
  requested_sector_type :: "'o \<Rightarrow> string"
  update_output_dict :: "'o \<Rightarrow> 'o"
  produce_current_time :: "string \<Rightarrow> bool"
  set_comparison_path :: "'o \<Rightarrow> string \<Rightarrow> string \<Rightarrow> string \<times> string"
  background :: "'o \<Rightarrow> 'a dataset option"
  remove_duplicates_requested :: "'o \<Rightarrow> bool"
  product_db :: bool
  write_to_database :: "string \<Rightarrow> string \<Rightarrow> error + string"
  count_valid :: "'a \<Rightarrow> nat"

text \<open>
  The statement of \<open>get_alg_xarray\<close> that an invocation comes from, in
  \<open>config_based\<close>: line 1399 (output family \<open>xarray_data\<close>, on the padded
  data, memoized in \<open>pad_alg_xarrays\<close>), line 1408 (a \<open>reader_defined\<close> or
  \<open>self_register\<close> area, not memoized) or line 1420 (memoized in
  \<open>alg_xarrays\<close>). The log of invocations is not in the source: it records each
  call of the builder with the product name, so that calls can be counted.
\<close>

datatype call_site = PadXarrayData | NoSectoring | Sectored

datatype builder_call = BuilderCall call_site string

text \<open>
  What happened to a requested product, as the source logs it: with the output type
  in \<open>config_based\<close>, with the name of the area definition in \<open>single_source\<close>.
\<close>

datatype event =
    SkippedCurrentTime string
  | SkippedMissingVariables string string
  | SectoredDataOutput string string
  | InsufficientCoverage string string
  | Produced string string

text \<open>An entry of the final products ledger (config\_based.py, lines 317--342).\<close>

record ledger_entry =
  files :: "string list"
  database_writes :: "string list"
  compare_outputs_module :: string

record ('a, 'fs) flow_state =
  pad_alg_xarrays :: "(string \<times> 'a dataset) list"
  alg_xarrays :: "(string \<times> 'a dataset) list"
  builder_calls :: "builder_call list"
  final_products :: "(string \<times> ledger_entry) list"
  removed_products :: "string list"
  saved_products :: "string list"
  file_system :: "'fs"
  num_jobs :: nat
  events :: "event list"

text \<open>
  The local variables of \<open>config_based\<close> that the loops over outputs and
  products read: the area definition (after adjustment), the padded area definition,
  the data sectored to the padded and to the exact area, the variables that still have
  data, and the \<open>resampled_read\<close> flag.
\<close>

record 'a sector_scope =
  scope_area_def :: area_def
  scope_pad_area_def :: area_def
  scope_pad_sect_xarrays :: "'a xarray_dict"
  scope_sect_xarrays :: "'a xarray_dict"
  scope_all_vars :: "string list"
  scope_resampled_read :: bool

text \<open>
  The coverage gate, single\_source.py lines 1478--1492 and config\_based.py lines
  1459--1473 (the same statements): \<open>minimum_coverage\<close> is 10, then the
  dataset's \<open>minimum_coverage\<close> attribute if it has one, then the override of the
  command line or config if there is one. The result says whether the product is
  skipped; comparing a number with an attribute that is not a number is a
  \<open>TypeError\<close>.
\<close>

definition coverage_gate :: "'a dataset \<Rightarrow> rat option \<Rightarrow> rat \<Rightarrow> rat \<Rightarrow> error + bool" where
  "coverage_gate alg_xarray override covg fname_covg =
     (let minimum_coverage = ANum 10;
          minimum_coverage =
            (case map_of (attrs alg_xarray) ''minimum_coverage'' of
               Some v \<Rightarrow> v
             | None \<Rightarrow> minimum_coverage);
          minimum_coverage =
            (case override of
               Some c \<Rightarrow> ANum c
             | None \<Rightarrow> minimum_coverage)
      in case minimum_coverage of
           ANum m \<Rightarrow> Inr (covg < m \<and> fname_covg < m)
         | _ \<Rightarrow> Inl TypeError)"

text \<open>
  single\_source.py lines 1437--1465 and config\_based.py lines 1429--1457: the
  image-production coverage and the filename coverage of the dataset.
\<close>

definition coverage_values ::
  "('a, 'k, 'c, 'o, 'fs) flow_env \<Rightarrow> 'o \<Rightarrow> string \<Rightarrow> 'a dataset \<Rightarrow> area_def \<Rightarrow> error + rat \<times> rat" where
  "coverage_values env output_dict product_name alg_xarray area =
     bnd (source_name_of alg_xarray) (\<lambda>source_name.
     bnd (coverage env ''image_production_covg'' product_name source_name output_dict
            alg_xarray area) (\<lambda>covg.
     bnd (source_name_of alg_xarray) (\<lambda>source_name.
     bnd (coverage env ''fname_covg'' product_name source_name output_dict alg_xarray area)
       (\<lambda>fname_covg.
     Inr (covg, fname_covg)))))"

text \<open>single\_source.py lines 226--235.\<close>

definition combine_filename_extra_fields :: "'a dataset \<Rightarrow> 'a dataset \<Rightarrow> error + 'a dataset" where
  "combine_filename_extra_fields source_xarray dest_xarray =
     (case map_of (attrs source_xarray) ''filename_extra_fields'' of
        None \<Rightarrow> Inr dest_xarray
      | Some (AFields extra) \<Rightarrow>
          fold (\<lambda>(field, v) dest. bnd dest (\<lambda>d. add_filename_extra_field d field v))
               extra (Inr dest_xarray)
      | Some _ \<Rightarrow> Inl TypeError)"

text \<open>single\_source.py lines 238--256; the list of the products' file names.\<close>

definition process_sectored_data_output ::
  "('a, 'c, 'o) plot_env \<Rightarrow> 'a xarray_dict \<Rightarrow> string list \<Rightarrow> string \<Rightarrow> 'o \<Rightarrow> area_def option
    \<Rightarrow> error + string list" where
  "process_sectored_data_output env xobjs variables_req product_name output_dict area =
     bnd (subscript xobjs ''METADATA'') (\<lambda>metadata.
     bnd (source_name_of metadata) (\<lambda>source_name.
     if product_type_of env product_name source_name = ''sectored_xarray_dict_to_output_format''
     then bnd (process_xarray_dict_to_output_format env xobjs variables_req product_name
                 output_dict area)
            (\<lambda>products. Inr ([] @ map fst products))
     else Inr []))"

text \<open>config\_based.py lines 132--141 and 317--342.\<close>

definition get_required_outputs ::
  "('a, 'k, 'c, 'o, 'fs) flow_env \<Rightarrow> (string \<times> 'o) list \<Rightarrow> string \<Rightarrow> (string \<times> 'o) list" where
  "get_required_outputs env outputs sector_type_now =
     filter (\<lambda>(output_type, output_dict). \<not> requested_sector_type env output_dict \<noteq> sector_type_now)
       outputs"

definition initialize_final_products ::
  "(string \<times> ledger_entry) list \<Rightarrow> string \<Rightarrow> string \<Rightarrow> (string \<times> ledger_entry) list" where
  "initialize_final_products ledger cpath cmodule =
     (if cpath \<notin> fst ` set ledger
      then AList.update cpath
             \<lparr>files = [], database_writes = [], compare_outputs_module = cmodule\<rparr> ledger
      else ledger)"

text \<open>
  Updates of a ledger entry that exists: \<open>final_products[cpath][...] = ...\<close> and
  \<open>final_products[cpath][...] += ...\<close>.
\<close>

definition map_entry ::
  "string \<Rightarrow> (ledger_entry \<Rightarrow> ledger_entry) \<Rightarrow> (string \<times> ledger_entry) list
    \<Rightarrow> (string \<times> ledger_entry) list" where
  "map_entry cpath f ledger = map (\<lambda>(k, e). if k = cpath then (k, f e) else (k, e)) ledger"

text \<open>The database writes of a list of files: config\_based.py lines 1377--1389, 1510--1521.\<close>

fun database_writes_of ::
  "('a, 'k, 'c, 'o, 'fs) flow_env \<Rightarrow> string \<Rightarrow> string list \<Rightarrow> error + string list" where
  "database_writes_of env product_name [] = Inr []"
| "database_writes_of env product_name (fprod # rest) =
     bnd (write_to_database env fprod product_name) (\<lambda>product_added.
     bnd (database_writes_of env product_name rest) (\<lambda>added. Inr (product_added # added)))"

text \<open>
  config\_based.py lines 1392--1427: the dataset of the product, built or taken
  from the cache of its branch.
\<close>

definition cached_alg_xarray ::
  "('a, 'k, 'c, 'o, 'fs) flow_env \<Rightarrow> 'a sector_scope \<Rightarrow> 'o \<Rightarrow> string \<Rightarrow> string list
    \<Rightarrow> ('a, 'fs) flow_state \<Rightarrow> error + ('a dataset \<times> call_site \<times> ('a, 'fs) flow_state)" where
  "cached_alg_xarray env scope output_dict product_name product_variables st =
     bnd (get_plugin (output_formats_get_plugin (plot_part env))
            (get_output_format (plot_part env) output_dict)) (\<lambda>output_fmt_plugin.
     if out_family output_fmt_plugin = ''xarray_data''
     then
       bnd (if product_name \<notin> fst ` set (pad_alg_xarrays st)
            then
              bnd (get_alg_xarray (alg_part env) (scope_pad_sect_xarrays scope)
                     (scope_pad_area_def scope) product_name True (scope_resampled_read scope)
                     (Some product_variables)) (\<lambda>built.
              Inr (st\<lparr>pad_alg_xarrays := AList.update product_name built (pad_alg_xarrays st),
                      builder_calls :=
                        builder_calls st @ [BuilderCall PadXarrayData product_name]\<rparr>))
            else Inr st) (\<lambda>st'.
       bnd (subscript (pad_alg_xarrays st') product_name) (\<lambda>alg_xarray.
       Inr (alg_xarray, PadXarrayData, st')))
     else if sector_type (scope_area_def scope) \<in> set [''reader_defined'', ''self_register'']
     then
       bnd (get_alg_xarray (alg_part env) (scope_pad_sect_xarrays scope)
              (scope_pad_area_def scope) product_name False (scope_resampled_read scope)
              (Some product_variables)) (\<lambda>alg_xarray.
       Inr (alg_xarray, NoSectoring,
            st\<lparr>builder_calls := builder_calls st @ [BuilderCall NoSectoring product_name]\<rparr>))
     else
       bnd (if product_name \<notin> fst ` set (alg_xarrays st)
            then
              bnd (get_alg_xarray (alg_part env) (scope_sect_xarrays scope)
                     (scope_area_def scope) product_name True (scope_resampled_read scope)
                     (Some product_variables)) (\<lambda>built.
              Inr (st\<lparr>alg_xarrays := AList.update product_name built (alg_xarrays st),
                      builder_calls :=
                        builder_calls st @ [BuilderCall Sectored product_name]\<rparr>))
            else Inr st) (\<lambda>st'.
       bnd (subscript (alg_xarrays st') product_name) (\<lambda>alg_xarray.
       Inr (alg_xarray, Sectored, st'))))"

text \<open>
  config\_based.py lines 1481--1534: the product is rendered and entered in the
  ledger. \<open>combine_filename_extra_fields\<close> writes into the dataset, which for the
  memoizing branches is the object held in the cache.
\<close>

definition render_product ::
  "('a, 'k, 'c, 'o, 'fs) flow_env \<Rightarrow> 'a sector_scope \<Rightarrow> string \<Rightarrow> 'o \<Rightarrow> string \<Rightarrow> string
    \<Rightarrow> 'a dataset \<Rightarrow> call_site \<Rightarrow> ('a, 'fs) flow_state \<Rightarrow> error + ('a, 'fs) flow_state" where
  "render_product env scope output_type output_dict product_name cpath alg_xarray site st =
     bnd (case background env output_dict of
            None \<Rightarrow> Inr (alg_xarray, st)
          | Some bg \<Rightarrow>
              bnd (combine_filename_extra_fields bg alg_xarray) (\<lambda>combined.
              Inr (combined,
                   (case site of
                      PadXarrayData \<Rightarrow>
                        st\<lparr>pad_alg_xarrays :=
                             AList.update product_name combined (pad_alg_xarrays st)\<rparr>
                    | Sectored \<Rightarrow>
                        st\<lparr>alg_xarrays := AList.update product_name combined (alg_xarrays st)\<rparr>
                    | NoSectoring \<Rightarrow> st))))
       (\<lambda>(alg_xarray', st1).
     bnd (plot_data (plot_part env) output_dict alg_xarray' (scope_area_def scope) product_name
            None False) (\<lambda>curr_products.
     bnd (if product_db env then database_writes_of env product_name (map fst curr_products)
          else Inr []) (\<lambda>added.
     bnd (if remove_duplicates_requested env output_dict
          then bnd (remove_duplicates (dup_part env) curr_products True (file_system st1))
                 (\<lambda>(curr_removed_products, curr_saved_products, fs').
                    Inr (removed_products st1 @ curr_removed_products,
                         saved_products st1 @ curr_saved_products, fs'))
          else Inr (removed_products st1, saved_products st1, file_system st1))
       (\<lambda>(removed, saved, fs').
     Inr (st1\<lparr>final_products :=
                 map_entry cpath
                   (\<lambda>e. e\<lparr>files := files e @ map fst curr_products,
                           database_writes := database_writes e @ added\<rparr>)
                   (final_products st1),
              removed_products := removed,
              saved_products := saved,
              file_system := fs',
              num_jobs := num_jobs st1 + 1,
              events := events st1 @ [Produced output_type product_name]\<rparr>)))))"

text \<open>config\_based.py lines 1357--1360: the comparison path enters the ledger.\<close>

definition enter_ledger ::
  "string \<Rightarrow> string \<Rightarrow> ('a, 'fs) flow_state \<Rightarrow> ('a, 'fs) flow_state" where
  "enter_ledger cpath cmodule st =
     st\<lparr>final_products :=
          map_entry cpath (\<lambda>e. e\<lparr>compare_outputs_module := cmodule\<rparr>)
            (initialize_final_products (final_products st) cpath cmodule)\<rparr>"

text \<open>config\_based.py lines 1345--1534: the body of the loop over the products.\<close>

definition config_product_step ::
  "('a, 'k, 'c, 'o, 'fs) flow_env \<Rightarrow> 'a sector_scope \<Rightarrow> string \<Rightarrow> 'o \<Rightarrow> string
    \<Rightarrow> ('a, 'fs) flow_state \<Rightarrow> error + ('a, 'fs) flow_state" where
  "config_product_step env scope output_type output_dict product_name st =
     bnd (subscript (scope_pad_sect_xarrays scope) ''METADATA'') (\<lambda>metadata.
     bnd (source_name_of metadata) (\<lambda>source_name.
     let product_variables = get_required_variables (alg_part env) product_name source_name in
     if \<not> set product_variables \<subseteq> set (scope_all_vars scope)
     then Inr (st\<lparr>events := events st @ [SkippedMissingVariables output_type product_name]\<rparr>)
     else
       (case set_comparison_path env output_dict product_name output_type of
          (cpath, cmodule) \<Rightarrow>
       let st0 = enter_ledger cpath cmodule st in
       bnd (process_sectored_data_output (plot_part env) (scope_pad_sect_xarrays scope)
              product_variables product_name output_dict (Some (scope_area_def scope)))
         (\<lambda>curr_output_products.
       if curr_output_products \<noteq> []
       then
         bnd (if product_db env then database_writes_of env product_name curr_output_products
              else Inr []) (\<lambda>added.
         Inr (st0\<lparr>final_products :=
                     map_entry cpath
                       (\<lambda>e. e\<lparr>files := files e @ curr_output_products,
                               database_writes := database_writes e @ added\<rparr>)
                       (final_products st0),
                   events := events st0 @ [SectoredDataOutput output_type product_name]\<rparr>))
       else
         bnd (cached_alg_xarray env scope output_dict product_name product_variables st0)
           (\<lambda>(alg_xarray, site, st1).
         bnd (coverage_values env output_dict product_name alg_xarray (scope_area_def scope))
           (\<lambda>(covg, fname_covg).
         bnd (coverage_gate alg_xarray (get_minimum_coverage env product_name output_dict)
                covg fname_covg) (\<lambda>insufficient.
         if insufficient
         then Inr (st1\<lparr>events := events st1 @ [InsufficientCoverage output_type product_name]\<rparr>)
         else render_product env scope output_type output_dict product_name cpath alg_xarray
                site st1)))))))"

fun config_products_loop ::
  "('a, 'k, 'c, 'o, 'fs) flow_env \<Rightarrow> 'a sector_scope \<Rightarrow> string \<Rightarrow> 'o \<Rightarrow> string list
    \<Rightarrow> ('a, 'fs) flow_state \<Rightarrow> error + ('a, 'fs) flow_state" where
  "config_products_loop env scope output_type output_dict [] st = Inr st"
| "config_products_loop env scope output_type output_dict (product_name # rest) st =
     bnd (config_product_step env scope output_type output_dict product_name st)
       (config_products_loop env scope output_type output_dict rest)"

text \<open>config\_based.py lines 1272--1534: the loop over the required output types.\<close>

fun config_outputs_loop ::
  "('a, 'k, 'c, 'o, 'fs) flow_env \<Rightarrow> 'a sector_scope \<Rightarrow> (string \<times> 'o) list
    \<Rightarrow> ('a, 'fs) flow_state \<Rightarrow> error + ('a, 'fs) flow_state" where
  "config_outputs_loop env scope [] st = Inr st"
| "config_outputs_loop env scope ((output_type, output_dict0) # rest) st =
     (if \<not> produce_current_time env output_type
      then config_outputs_loop env scope rest
             (st\<lparr>events := events st @ [SkippedCurrentTime output_type]\<rparr>)
      else
        (let output_dict = update_output_dict env output_dict0 in
         bnd (config_products_loop env scope output_type output_dict
                (product_names env output_dict) st)
           (config_outputs_loop env scope rest)))"

text \<open>
  config\_based.py lines 1266--1534, for one (area definition, sector type)
  iteration: the two caches start empty (lines 1268--1269), and so does the log of
  the builder's invocations.
\<close>

definition process_sector_outputs ::
  "('a, 'k, 'c, 'o, 'fs) flow_env \<Rightarrow> 'a sector_scope \<Rightarrow> string \<Rightarrow> (string \<times> 'o) list
    \<Rightarrow> ('a, 'fs) flow_state \<Rightarrow> error + ('a, 'fs) flow_state" where
  "process_sector_outputs env scope sector_type_now outputs st =
     config_outputs_loop env scope (get_required_outputs env outputs sector_type_now)
       (st\<lparr>pad_alg_xarrays := [], alg_xarrays := [], builder_calls := []\<rparr>)"

text \<open>
  The words of the specification on the minimum, for comparison with
  \<open>coverage_gate\<close>: the
  explicit override when present, else the dataset's \<open>minimum_coverage\<close> attribute
  when present, else 10. It is read where the value consulted is a number
  (\<open>minimum_is_number\<close>).
\<close>

definition effective_minimum_coverage :: "rat option \<Rightarrow> 'a dataset \<Rightarrow> rat" where
  "effective_minimum_coverage override alg_xarray =
     (case override of
        Some c \<Rightarrow> c
      | None \<Rightarrow>
          (case map_of (attrs alg_xarray) ''minimum_coverage'' of
             Some (ANum a) \<Rightarrow> a
           | _ \<Rightarrow> 10))"

definition minimum_is_number :: "rat option \<Rightarrow> 'a dataset \<Rightarrow> bool" where
  "minimum_is_number override alg_xarray =
     (case override of
        Some c \<Rightarrow> True
      | None \<Rightarrow>
          (case map_of (attrs alg_xarray) ''minimum_coverage'' of
             Some (AStr s) \<Rightarrow> False
           | Some (AFields extra) \<Rightarrow> False
           | _ \<Rightarrow> True))"

text \<open>
  \<open>single_source\<close>, single\_source.py lines 1394--1543: what is done for one area
  definition once the data is sectored and the area definition adjusted. The state
  holds the lists that the procflow accumulates.
\<close>

record 'fs single_state =
  ss_final_products :: "string list"
  ss_removed_products :: "string list"
  ss_saved_products :: "string list"
  ss_database_writes :: "string list"
  ss_file_system :: "'fs"
  ss_num_jobs :: nat
  ss_events :: "event list"

text \<open>Lines 1394--1399: the variables that hold data.\<close>

definition collect_all_vars :: "('a, 'k, 'c, 'o, 'fs) flow_env \<Rightarrow> 'a xarray_dict \<Rightarrow> string list" where
  "collect_all_vars env pad_sect_xarrays =
     concat (map (\<lambda>(key, xobj).
                    map fst (filter (\<lambda>(var, arr). count_valid env arr > 0) (variables xobj)))
                 pad_sect_xarrays)"

text \<open>Lines 1406--1431: the three calls of the builder.\<close>

definition single_source_alg_xarray ::
  "('a, 'k, 'c, 'o, 'fs) flow_env \<Rightarrow> 'o \<Rightarrow> string \<Rightarrow> string list \<Rightarrow> area_def \<Rightarrow> area_def
    \<Rightarrow> 'a xarray_dict \<Rightarrow> bool \<Rightarrow> error + 'a dataset" where
  "single_source_alg_xarray env command_line_args product_name variables_req area pad_area
      pad_sect_xarrays resampled_read =
     bnd (get_plugin (output_formats_get_plugin (plot_part env))
            (get_output_format (plot_part env) command_line_args)) (\<lambda>output_plugin.
     if out_family output_plugin = ''xarray_data''
     then get_alg_xarray (alg_part env) pad_sect_xarrays pad_area product_name False
            resampled_read None
     else if sector_type area \<in> set [''reader_defined'', ''self_register'']
     then get_alg_xarray (alg_part env) pad_sect_xarrays pad_area product_name False
            resampled_read (Some variables_req)
     else get_alg_xarray (alg_part env) pad_sect_xarrays area product_name True
            resampled_read None)"

text \<open>Lines 1467--1473: \<open>alg_xarray.attrs[attrname] = new_attrs[attrname]\<close>.\<close>

definition add_new_attrs :: "(string \<times> attr) list \<Rightarrow> 'a dataset \<Rightarrow> 'a dataset" where
  "add_new_attrs new_attrs alg_xarray =
     fold (\<lambda>(attrname, v) ds. ds\<lparr>attrs := AList.update attrname v (attrs ds)\<rparr>)
       new_attrs alg_xarray"

text \<open>Lines 1502--1535: the product is rendered.\<close>

definition single_source_render ::
  "('a, 'k, 'c, 'o, 'fs) flow_env \<Rightarrow> 'o \<Rightarrow> string \<Rightarrow> area_def \<Rightarrow> 'a dataset \<Rightarrow> 'fs single_state
    \<Rightarrow> error + 'fs single_state" where
  "single_source_render env command_line_args product_name area alg_xarray st =
     bnd (plot_data (plot_part env) command_line_args alg_xarray area product_name None False)
       (\<lambda>curr_products.
     bnd (remove_duplicates (dup_part env) curr_products True (ss_file_system st))
       (\<lambda>(curr_removed_products, curr_saved_products, fs').
     bnd (if product_db env then database_writes_of env product_name (map fst curr_products)
          else Inr []) (\<lambda>added.
     Inr (st\<lparr>ss_final_products := ss_final_products st @ map fst curr_products,
             ss_removed_products := ss_removed_products st @ curr_removed_products,
             ss_saved_products := ss_saved_products st @ curr_saved_products,
             ss_database_writes := ss_database_writes st @ added,
             ss_file_system := fs',
             ss_num_jobs := ss_num_jobs st + 1,
             ss_events := ss_events st @ [Produced (ad_name area) product_name]\<rparr>))))"

definition single_source_product ::
  "('a, 'k, 'c, 'o, 'fs) flow_env \<Rightarrow> 'o \<Rightarrow> string \<Rightarrow> string list \<Rightarrow> 'a xarray_dict \<Rightarrow> area_def
    \<Rightarrow> area_def \<Rightarrow> 'a xarray_dict \<Rightarrow> bool \<Rightarrow> (string \<times> attr) list \<Rightarrow> 'fs single_state
    \<Rightarrow> error + 'fs single_state" where
  "single_source_product env command_line_args product_name variables_req xobjs area pad_area
      pad_sect_xarrays resampled_read new_attrs st =
     (if set variables_req \<subseteq> set (collect_all_vars env pad_sect_xarrays)
      then
        bnd (single_source_alg_xarray env command_line_args product_name variables_req area
               pad_area pad_sect_xarrays resampled_read) (\<lambda>built.
        bnd (coverage_values env command_line_args product_name built area)
          (\<lambda>(covg, fname_covg).
        let alg_xarray = add_new_attrs new_attrs built in
        bnd (coverage_gate alg_xarray (get_minimum_coverage env product_name command_line_args)
               covg fname_covg) (\<lambda>insufficient.
        if insufficient
        then Inr (st\<lparr>ss_events :=
                       ss_events st @ [InsufficientCoverage (ad_name area) product_name]\<rparr>)
        else single_source_render env command_line_args product_name area alg_xarray st)))
      else
        bnd (subscript xobjs ''METADATA'') (\<lambda>metadata.
        bnd (source_name_of metadata) (\<lambda>source_name.
        Inr (st\<lparr>ss_events :=
                  ss_events st @ [SkippedMissingVariables (ad_name area) product_name]\<rparr>))))"





section \<open>Example inputs\<close>

text \<open>Concrete inputs on which the theorems below are instantiated.\<close>

definition static_area :: area_def where
  "static_area =
     \<lparr>ad_name = ''global'', area_id = ''global'', description = ''Global'',
      sector_type = ''static'', sector_info = [],
      proj_dict = [(''lat_0'', INum 0), (''lon_0'', INum 0)],
      x_size = 1000, y_size = 500, pixel_size_x = 20000, pixel_size_y = 20000,
      area_extent = (-180, -90, 180, 90)\<rparr>"

definition tc_area :: area_def where
  "tc_area =
     \<lparr>ad_name = ''tc2020io01amphan'', area_id = ''tc2020io01amphan'', description = ''Amphan'',
      sector_type = ''tc'',
      sector_info = [(''clat'', INum 15), (''clon'', INum 87), (''adjustment_id'', IStr ''archer'')],
      proj_dict = [(''lat_0'', INum 15), (''lon_0'', INum 87)],
      x_size = 800, y_size = 801, pixel_size_x = 2000, pixel_size_y = 2000,
      area_extent = (-800000, -800000, 800000, 800000)\<rparr>"

text \<open>
  An area generator that records its arguments; the products of the example sizes
  with the scale factor 1.5 are exact in floating point.
\<close>

definition example_pad_env :: pad_env where
  "example_pad_env =
     \<lparr>clat_clon_resolution_shape =
        (\<lambda>aid long_description clat clon projection num_lines num_samples pixel_width pixel_height.
           \<lparr>ad_name = aid, area_id = aid, description = long_description,
            sector_type = ''unknown'', sector_info = [],
            proj_dict = [(''proj'', IStr projection), (''lat_0'', clat), (''lon_0'', clon)],
            x_size = num_samples, y_size = num_lines,
            pixel_size_x = pixel_width, pixel_size_y = pixel_height,
            area_extent =
              (- (of_int num_samples * pixel_width / 2), - (of_int num_lines * pixel_height / 2),
               of_int num_samples * pixel_width / 2, of_int num_lines * pixel_height / 2)\<rparr>),
      copy_sector_info =
        (\<lambda>src dst. dst\<lparr>sector_type := sector_type src, sector_info := sector_info src\<rparr>),
      float_mul = (\<lambda>n x. of_int n * x)\<rparr>"

text \<open>A file system that records the deletions asked of it.\<close>

definition tc_hook :: "string list dup_hook" where
  "tc_hook fname remove_files fs =
     (([fname @ ''.old''], [fname]), (if remove_files then fs @ [fname @ ''.old''] else fs))"

definition example_dup_env :: "string list dup_env" where
  "example_dup_env =
     \<lparr>plugin_module = (\<lambda>n. if n = ''tc_fname'' then Some ''geoips.tc_fname''
                           else if n = ''geoips_fname'' then Some ''geoips.geoips_fname''
                           else None),
      module_attr = (\<lambda>m a. if m = ''geoips.tc_fname'' \<and> a = ''tc_fname_remove_duplicates''
                            then Some tc_hook else None)\<rparr>"

definition example_fnames :: "(string \<times> (string \<times> string) list) list" where
  "example_fnames =
     [(''a.png'', [(''filename_format'', ''tc_fname'')]),
      (''b.png'', [(''filename_format'', ''geoips_fname'')]),
      (''c.png'', [(''filename_format'', ''tc_fname'')])]"





definition h_cmd_only :: heap where
  "h_cmd_only =
     [ [(''output_format'', PStr ''imagery_annotated''), (''filename_formats_kwargs'', PRef 1)],
       [(''all'', PRef 2), (''tc_fname'', PRef 3)],
       [(''output_dir'', PStr ''/a''), (''basedir'', PStr ''/b'')],
       [],
       [(''filename_format_kwargs'', PRef 5)],
       [(''basedir'', PStr ''/cmd''), (''extra'', PNum 1)] ]"


text \<open>
  A product for the Alg-Xarray Builder: arrays are written as text that records how
  they were computed, and the plugins take no keyword arguments. The product
  \<open>Infrared\<close> of source \<open>abi\<close> needs the variable \<open>B14BT\<close>, applies the
  algorithm \<open>single_ir\<close> of family \<open>xarray_to_numpy\<close> first and then
  interpolates (\<open>alg_interp_cmap\<close>).
\<close>

definition ir_alg_plugin :: "(string, unit) alg_plugin" where
  "ir_alg_plugin =
     \<lparr>alg_family = ''xarray_to_numpy'',
      alg_on_xarray = (\<lambda>ds args.
         case map_of (variables ds) ''B14BT'' of
           Some x \<Rightarrow> Inr (''alg('' @ x @ '')'')
         | None \<Rightarrow> Inl (PluginError ''single_ir'')),
      alg_on_dict_area = (\<lambda>xd area args. Inl (PluginError ''single_ir'')),
      alg_on_dict = (\<lambda>xd args. Inl (PluginError ''single_ir'')),
      alg_on_key = (\<lambda>key args. Inl (PluginError ''single_ir'')),
      alg_xarray_to_xarray = (\<lambda>ds args. Inl (PluginError ''single_ir'')),
      alg_on_list = (\<lambda>xs args. Inl (PluginError ''single_ir''))\<rparr>"

text \<open>The interpolated variables of \<open>varlist\<close>, written into a dataset.\<close>

definition interp_into :: "string dataset \<Rightarrow> string dataset \<Rightarrow> string list \<Rightarrow> string dataset" where
  "interp_into input_xarray output_xarray varlist =
     fold (\<lambda>v ds. case map_of (variables input_xarray) v of
                      Some x \<Rightarrow> set_variable ds v (''interp('' @ x @ '')'')
                    | None \<Rightarrow> ds)
          varlist output_xarray"

text \<open>
  Two interpolators that compute the same arrays: \<open>interp_fresh\<close> returns a new
  dataset and leaves its \<open>output_xarray\<close> as passed; \<open>interp_in_place\<close> writes
  into \<open>output_xarray\<close> and returns that object.
\<close>

definition interp_fresh :: "(string, unit) interp_plugin" where
  "interp_fresh area input_xarray output_xarray varlist args =
     Inr (interp_into input_xarray (empty_dataset\<lparr>attrs := attrs input_xarray\<rparr>) varlist,
          output_xarray)"

definition interp_in_place :: "(string, unit) interp_plugin" where
  "interp_in_place area input_xarray output_xarray varlist args =
     Inr (interp_into input_xarray output_xarray varlist,
          interp_into input_xarray output_xarray varlist)"

definition ir_env :: "(string, unit) interp_plugin \<Rightarrow> (string, unit) alg_env" where
  "ir_env interp =
     \<lparr>get_required_variables = (\<lambda>product source. [''B14BT'']),
      get_requested_datasets_for_variables = (\<lambda>product source. []),
      get_product_type = (\<lambda>product source. ''alg_interp_cmap''),
      get_alg_name = (\<lambda>product source. ''single_ir''),
      get_alg_args = (\<lambda>product source. ()),
      get_interp_name = (\<lambda>product source. Some ''interp_nearest''),
      get_interp_args = (\<lambda>product source. ()),
      algorithms_get_plugin = (\<lambda>name. if name = ''single_ir'' then Some ir_alg_plugin else None),
      interpolators_get_plugin = (\<lambda>name. if name = ''interp_nearest'' then Some interp else None),
      sector_xarrays = (\<lambda>xd area varlist. xd),
      copy_standard_metadata = (\<lambda>src dst. dst),
      isel_time = (\<lambda>ds i. ds),
      concat_dim_2 = (\<lambda>dss. Inl (ValueError ''no datasets''))\<rparr>"

definition abi_xarrays :: "string xarray_dict" where
  "abi_xarrays =
     [(''METADATA'', \<lparr>variables = [], attrs = [(''source_name'', AStr ''abi'')], dims = []\<rparr>),
      (''LOW'', \<lparr>variables = [(''B14BT'', ''bt'')], attrs = [(''source_name'', AStr ''abi'')],
                 dims = []\<rparr>)]"

text \<open>
  A render environment with one output format, whose plugin has the family
  \<open>family\<close> and returns \<open>returned\<close> whatever it is called with, and a metadata
  format of family \<open>standard_metadata\<close> that writes the file it is asked for.
  One output file name is declared, \<open>a.png\<close>, with the metadata file
  \<open>a.png.yaml\<close>.
\<close>

definition render_env :: "string \<Rightarrow> string list option \<Rightarrow> (string, unit, unit) plot_env" where
  "render_env family returned =
     \<lparr>get_output_format = (\<lambda>output_dict. ''imagery''),
      output_formats_get_plugin =
        (\<lambda>name. if name = ''imagery''
                  then Some \<lparr>out_family = family, out_call = (\<lambda>args. Inr returned)\<rparr>
                  else if name = ''metadata_default''
                  then Some \<lparr>out_family = ''standard_metadata'',
                             out_call = (\<lambda>args. case args of
                                           StandardMetadata area ds metadata_fname output_fname
                                             \<Rightarrow> Inr (Some [metadata_fname])
                                         | _ \<Rightarrow> Inl TypeError)\<rparr>
                  else None),
      get_output_filenames =
        (\<lambda>output_dict product_name ds area supported.
           Inr ([(''a.png'', [(''filename_format'', ''geoips_fname'')])],
                [(Some ''a.png.yaml'', [(''filename_format'', ''geoips_fname'')])])),
      get_cmap_name = (\<lambda>product source. None),
      colormap_info = (\<lambda>name product source. Inr ()),
      get_metadata_output_format = (\<lambda>output_dict. ''metadata_default''),
      product_type_of = (\<lambda>product source. ''sectored_xarray_dict_to_output_format'')\<rparr>"

definition ir_dataset :: "string dataset" where
  "ir_dataset =
     \<lparr>variables = [(''Infrared'', ''interp(alg(bt))'')],
      attrs = [(''source_name'', AStr ''abi'')], dims = []\<rparr>"

text \<open>
  A run of the orchestrators on the product \<open>Infrared\<close>: an output spec names
  its output format, its products, its sector type and its minimum coverage, if any.
  The format \<open>netcdf_geoips\<close> has the family \<open>xarray_data\<close> and
  \<open>imagery_clean\<close> the family \<open>image\<close>; both plugins write the files they
  are asked for, one per product and without metadata. The two coverage functions
  return \<open>covg\<close> and \<open>fname_covg\<close>.
\<close>

record output_spec =
  os_format :: string
  os_products :: "string list"
  os_sector_type :: string
  os_minimum_coverage :: "rat option"

definition flow_plot_env :: "(string, unit, output_spec) plot_env" where
  "flow_plot_env =
     \<lparr>get_output_format = os_format,
      output_formats_get_plugin =
        (\<lambda>name. if name = ''netcdf_geoips''
                  then Some \<lparr>out_family = ''xarray_data'',
                             out_call = (\<lambda>args. case args of
                                           XarrayData ds varlist fnames \<Rightarrow> Inr (Some fnames)
                                         | _ \<Rightarrow> Inl TypeError)\<rparr>
                  else if name = ''imagery_clean''
                  then Some \<lparr>out_family = ''image'',
                             out_call = (\<lambda>args. case args of
                                           Image area ds product fnames colors \<Rightarrow> Inr (Some fnames)
                                         | _ \<Rightarrow> Inl TypeError)\<rparr>
                  else None),
      get_output_filenames =
        (\<lambda>output_dict product_name ds area supported.
           Inr ([(product_name @ ''.'' @ os_format output_dict,
                  [(''filename_format'', ''geoips_fname'')])],
                [(None, [])])),
      get_cmap_name = (\<lambda>product source. None),
      colormap_info = (\<lambda>name product source. Inr ()),
      get_metadata_output_format = (\<lambda>output_dict. ''metadata_default''),
      product_type_of = (\<lambda>product source. ''alg_interp_cmap'')\<rparr>"

text \<open>
  The product computed by interpolating first (\<open>interp_alg_cmap\<close>), with a
  \<open>copy_standard_metadata\<close> that copies the attributes of the source dataset.
\<close>

definition interp_first_env :: "(string, unit) alg_env" where
  "interp_first_env =
     (ir_env interp_in_place)
       \<lparr>get_product_type := (\<lambda>product source. ''interp_alg_cmap''),
        copy_standard_metadata := (\<lambda>src dst. dst\<lparr>attrs := attrs src\<rparr>)\<rparr>"

definition example_flow_env ::
  "rat \<Rightarrow> rat \<Rightarrow> (string, unit, unit, output_spec, string list) flow_env" where
  "example_flow_env covg fname_covg =
     \<lparr>alg_part = interp_first_env,
      plot_part = flow_plot_env,
      dup_part = example_dup_env,
      coverage = (\<lambda>field product source output_dict ds area.
                    Inr (if field = ''image_production_covg'' then covg else fname_covg)),
      get_minimum_coverage = (\<lambda>product output_dict. os_minimum_coverage output_dict),
      product_names = os_products,
      requested_sector_type = os_sector_type,
      update_output_dict = (\<lambda>output_dict. output_dict),
      produce_current_time = (\<lambda>output_type. True),
      set_comparison_path = (\<lambda>output_dict product output_type. (''no_comparison'', ''none'')),
      background = (\<lambda>output_dict. None),
      remove_duplicates_requested = (\<lambda>output_dict. False),
      product_db = False,
      write_to_database = (\<lambda>fprod product. Inr fprod),
      count_valid = length\<rparr>"

definition image_output :: "rat option \<Rightarrow> output_spec" where
  "image_output minimum =
     \<lparr>os_format = ''imagery_clean'', os_products = [''Infrared''], os_sector_type = ''static'',
      os_minimum_coverage = minimum\<rparr>"

definition netcdf_output :: output_spec where
  "netcdf_output =
     \<lparr>os_format = ''netcdf_geoips'', os_products = [''Infrared''], os_sector_type = ''static'',
      os_minimum_coverage = None\<rparr>"

text \<open>The same data with a \<open>minimum_coverage\<close> of 20 declared on the dataset.\<close>

definition abi_xarrays_min20 :: "string xarray_dict" where
  "abi_xarrays_min20 =
     [(''METADATA'', \<lparr>variables = [], attrs = [(''source_name'', AStr ''abi'')], dims = []\<rparr>),
      (''LOW'', \<lparr>variables = [(''B14BT'', ''bt'')],
                 attrs = [(''source_name'', AStr ''abi''), (''minimum_coverage'', ANum 20)],
                 dims = []\<rparr>)]"

definition example_scope :: "area_def \<Rightarrow> string xarray_dict \<Rightarrow> string sector_scope" where
  "example_scope area xarrays =
     \<lparr>scope_area_def = area, scope_pad_area_def = area,
      scope_pad_sect_xarrays = xarrays, scope_sect_xarrays = xarrays,
      scope_all_vars = [''B14BT''], scope_resampled_read = False\<rparr>"

definition self_register_area :: area_def where
  "self_register_area = static_area\<lparr>sector_type := ''self_register''\<rparr>"

definition empty_flow_state :: "(string, string list) flow_state" where
  "empty_flow_state =
     \<lparr>pad_alg_xarrays = [], alg_xarrays = [], builder_calls = [], final_products = [],
      removed_products = [], saved_products = [], file_system = [], num_jobs = 0, events = []\<rparr>"

definition empty_single_state :: "string list single_state" where
  "empty_single_state =
     \<lparr>ss_final_products = [], ss_removed_products = [], ss_saved_products = [],
      ss_database_writes = [], ss_file_system = [], ss_num_jobs = 0, ss_events = []\<rparr>"

text \<open>
  The dataset that the builder returns for \<open>Infrared\<close> on this data, with the
  attributes \<open>declared\<close> on the source dataset besides its name.
\<close>

definition infrared_dataset :: "(string \<times> attr) list \<Rightarrow> string dataset" where
  "infrared_dataset declared =
     \<lparr>variables = [(''B14BT'', ''interp(bt)''), (''Infrared'', ''alg(interp(bt))'')],
      attrs = [(''source_name'', AStr ''abi'')] @ declared @ [(''product_name'', AStr ''Infrared'')],
      dims = []\<rparr>"

section \<open>Theorems\<close>

lemma bnd_simps [simp]: "bnd (Inl e) f = Inl e" "bnd (Inr x) f = f x"
  by (simp_all add: bnd_def)

subsection \<open>verify\_area\_def\<close>

text \<open>
  C5: whenever the data time span (end minus start) is not less than
  \<open>time_range_hours\<close>, \<open>new_area_defs\<close> is never assigned and
  \<open>verify_area_def\<close> fails where it reads the variable; only a call with a
  span strictly under \<open>time_range_hours\<close> returns a boolean, and that boolean
  says whether the checked area's name is among the filtered area definitions.
\<close>

theorem verify_area_def_unbound_on_long_span:
  "(\<not> data_end_datetime - data_start_datetime < timedelta_hours time_range_hours \<longrightarrow>
      verify_area_def filt area_defs check_area_def data_start_datetime data_end_datetime
        time_range_hours = Inl (UnboundLocalError ''new_area_defs''))
   \<and> (data_end_datetime - data_start_datetime < timedelta_hours time_range_hours \<longrightarrow>
      verify_area_def filt area_defs check_area_def data_start_datetime data_end_datetime
        time_range_hours =
        Inr (ad_name check_area_def \<in> ad_name ` set (filt area_defs data_start_datetime)))"
  by (auto simp add: verify_area_def_def)

theorem verify_area_def_unbound_on_long_span_witness:
  "verify_area_def (\<lambda>ads t. ads) [static_area] static_area 0 (timedelta_hours 3) 3
     = Inl (UnboundLocalError ''new_area_defs'')
   \<and> verify_area_def (\<lambda>ads t. ads) [static_area] static_area 0 (timedelta_hours 3 - 1) 3
     = Inr True"
  using verify_area_def_unbound_on_long_span
          [of "timedelta_hours 3" 0 3 "\<lambda>ads t. ads" "[static_area]" static_area]
        verify_area_def_unbound_on_long_span
          [of "timedelta_hours 3 - 1" 0 3 "\<lambda>ads t. ads" "[static_area]" static_area]
  by simp

subsection \<open>pad\_area\_definition\<close>

lemma pad_shape_scaled:
  "source_name = None \<or> the source_name \<notin> {''amsu-b'', ''mhs''} \<Longrightarrow>
   pad_shape env area source_name x_scale_factor y_scale_factor =
     (py_int (float_mul env (y_size area) y_scale_factor),
      py_int (float_mul env (x_size area) x_scale_factor))"
  by (auto simp add: pad_shape_def)

lemma pad_shape_full_swath:
  "s \<in> {''amsu-b'', ''mhs''} \<Longrightarrow>
   pad_shape env area (Some s) x_scale_factor y_scale_factor = (y_size area, 5 * x_size area)"
  by (auto simp add: pad_shape_def)

text \<open>
  C7: for an area definition whose sector type is not tc, with \<open>force_pad\<close> left
  False, \<open>pad_area_definition\<close> returns the input area definition itself (so equal
  in name, extents and every other field), whatever the source name and the scale
  factors. Padding happens only for tc sectors or under \<open>force_pad\<close>: a result
  other than the input implies one of the two, and the padded area is then generated
  with \<open>y_size * y_scale_factor\<close> lines and \<open>x_size * x_scale_factor\<close> samples
  (the floating-point products, truncated), or \<open>y_size\<close> lines and
  \<open>5 * x_size\<close> samples for the sources amsu-b and mhs.
\<close>

theorem pad_area_definition_identity_non_tc:
  "(\<not> is_sector_type area ''tc'' \<longrightarrow>
      pad_area_definition env area source_name False x_scale_factor y_scale_factor = Inr area)
   \<and> (pad_area_definition env area source_name force_pad x_scale_factor y_scale_factor \<noteq> Inr area
        \<longrightarrow> is_sector_type area ''tc'' \<or> force_pad)
   \<and> (pad_area_definition env area source_name force_pad x_scale_factor y_scale_factor = Inr padded
        \<and> (is_sector_type area ''tc'' \<or> force_pad) \<longrightarrow>
        (\<exists>clat clon.
           padded = copy_sector_info env area
             (clat_clon_resolution_shape env (area_id area) (description area) clat clon ''eqc''
                (if source_name \<noteq> None \<and> the source_name \<in> {''amsu-b'', ''mhs''}
                 then y_size area else py_int (float_mul env (y_size area) y_scale_factor))
                (if source_name \<noteq> None \<and> the source_name \<in> {''amsu-b'', ''mhs''}
                 then 5 * x_size area else py_int (float_mul env (x_size area) x_scale_factor))
                (pixel_size_x area) (pixel_size_y area))))"
proof (intro conjI impI)
  assume "\<not> is_sector_type area ''tc''"
  then show "pad_area_definition env area source_name False x_scale_factor y_scale_factor = Inr area"
    by (simp add: pad_area_definition_def)
next
  assume "pad_area_definition env area source_name force_pad x_scale_factor y_scale_factor \<noteq> Inr area"
  then show "is_sector_type area ''tc'' \<or> force_pad"
    by (auto simp add: pad_area_definition_def split: if_splits)
next
  assume h: "pad_area_definition env area source_name force_pad x_scale_factor y_scale_factor = Inr padded
        \<and> (is_sector_type area ''tc'' \<or> force_pad)"
  show "\<exists>clat clon.
           padded = copy_sector_info env area
             (clat_clon_resolution_shape env (area_id area) (description area) clat clon ''eqc''
                (if source_name \<noteq> None \<and> the source_name \<in> {''amsu-b'', ''mhs''}
                 then y_size area else py_int (float_mul env (y_size area) y_scale_factor))
                (if source_name \<noteq> None \<and> the source_name \<in> {''amsu-b'', ''mhs''}
                 then 5 * x_size area else py_int (float_mul env (x_size area) x_scale_factor))
                (pixel_size_x area) (pixel_size_y area))"
  proof (cases "source_name \<noteq> None \<and> the source_name \<in> {''amsu-b'', ''mhs''}")
    case True
    then obtain s where s: "source_name = Some s" "s \<in> {''amsu-b'', ''mhs''}" by auto
    from h show ?thesis
      unfolding pad_area_definition_def s(1) pad_shape_full_swath [OF s(2)]
      using s(2) by (auto split: if_splits sum.splits)
  next
    case False
    then have f: "source_name = None \<or> the source_name \<notin> {''amsu-b'', ''mhs''}" by auto
    from h show ?thesis
      unfolding pad_area_definition_def pad_shape_scaled [OF f]
      using False by (auto split: if_splits sum.splits)
  qed
qed

theorem pad_area_definition_identity_non_tc_witness:
  "\<not> is_sector_type static_area ''tc''
   \<and> pad_area_definition example_pad_env static_area (Some ''mhs'') False (3 / 2) (3 / 2)
       = Inr static_area
   \<and> pad_area_definition example_pad_env tc_area None False (3 / 2) (3 / 2) \<noteq> Inr tc_area
   \<and> is_sector_type tc_area ''tc''
   \<and> pad_area_definition example_pad_env tc_area None False (3 / 2) (3 / 2)
       = Inr (copy_sector_info example_pad_env tc_area
               (clat_clon_resolution_shape example_pad_env ''tc2020io01amphan'' ''Amphan''
                  (INum 15) (INum 87) ''eqc'' 1201 1200 2000 2000))"
  using pad_area_definition_identity_non_tc
          [of static_area example_pad_env "Some ''mhs''" "3 / 2" "3 / 2" False static_area]
        pad_area_definition_identity_non_tc
          [of tc_area example_pad_env None "3 / 2" "3 / 2" False
              "copy_sector_info example_pad_env tc_area
               (clat_clon_resolution_shape example_pad_env ''tc2020io01amphan'' ''Amphan''
                  (INum 15) (INum 87) ''eqc'' 1201 1200 2000 2000)"]
  by (simp add: pad_area_definition_def pad_shape_def is_sector_type_def static_area_def
        tc_area_def example_pad_env_def subscript_def py_int_def floor_eq_iff)

subsection \<open>remove\_duplicates\<close>

lemma remove_duplicates_loop_acc:
  "\<forall>e \<in> set fnames. resolvable env e \<Longrightarrow>
   remove_duplicates_loop env remove_files fnames (removed_files, saved_files, fs) =
     (case hooks_in_order env remove_files fnames fs of
        (r, s, fs') \<Rightarrow> Inr (removed_files @ r, saved_files @ s, fs'))"
proof (induction fnames arbitrary: removed_files saved_files fs)
  case Nil
  then show ?case by simp
next
  case (Cons entry rest)
  obtain fname info where entry: "entry = (fname, info)" by (cases entry)
  from Cons.prems have rest: "\<forall>e \<in> set rest. resolvable env e" by simp
  from Cons.prems entry obtain h where h: "find_hook env info = Inr h"
    by (auto simp add: resolvable_def split: sum.splits)
  show ?case
  proof (cases h)
    case None
    with h entry Cons.IH [OF rest] show ?thesis by simp
  next
    case (Some hook)
    obtain r s fs' where run: "hook fname remove_files fs = ((r, s), fs')"
      by (metis surj_pair)
    with Some h entry Cons.IH [OF rest, of "removed_files @ r" "saved_files @ s" fs']
    show ?thesis by (simp split: prod.splits)
  qed
qed

lemma hooks_in_order_filter:
  "hooks_in_order env remove_files (filter (has_hook env) fnames) fs =
   hooks_in_order env remove_files fnames fs"
proof (induction fnames arbitrary: fs)
  case Nil
  then show ?case by simp
next
  case (Cons entry rest)
  obtain fname info where entry: "entry = (fname, info)" by (cases entry)
  show ?case
  proof (cases "has_hook env entry")
    case True
    then obtain h where "find_hook env info = Inr (Some h)"
      using entry by (auto simp add: has_hook_def split: sum.splits option.splits)
    with True entry Cons.IH show ?thesis by (simp split: prod.splits)
  next
    case False
    then have "\<And>h. find_hook env info \<noteq> Inr (Some h)"
      using entry by (auto simp add: has_hook_def split: sum.splits option.splits)
    with False entry Cons.IH show ?thesis
      by (auto split: sum.splits option.splits)
  qed
qed

lemma hooks_in_order_no_hook:
  "\<forall>e \<in> set fnames. \<not> has_hook env e \<Longrightarrow>
   hooks_in_order env remove_files fnames fs = ([], [], fs)"
proof -
  assume "\<forall>e \<in> set fnames. \<not> has_hook env e"
  then have "filter (has_hook env) fnames = []" by (simp add: filter_empty_conv)
  with hooks_in_order_filter [of env remove_files fnames fs] show ?thesis by simp
qed

text \<open>
  C10: when every entry names a registered filename format, \<open>remove_duplicates\<close>
  returns the results of the \<open><filename_format>_remove_duplicates\<close> hooks of exactly
  the entries whose format's module defines the hook, concatenated in the iteration
  order of the input into the removed and the saved list; entries without the hook
  are skipped and add to neither list (so with no hook at all both lists are empty),
  and an empty input gives two empty lists.
\<close>

theorem remove_duplicates_concatenates_hook_results:
  "((\<forall>e \<in> set fnames. resolvable env e) \<longrightarrow>
      remove_duplicates env fnames remove_files fs =
        Inr (hooks_in_order env remove_files (filter (has_hook env) fnames) fs))
   \<and> ((\<forall>e \<in> set fnames. resolvable env e \<and> \<not> has_hook env e) \<longrightarrow>
      remove_duplicates env fnames remove_files fs = Inr ([], [], fs))
   \<and> remove_duplicates env [] remove_files fs = Inr ([], [], fs)"
proof (intro conjI impI)
  assume "\<forall>e \<in> set fnames. resolvable env e"
  then show "remove_duplicates env fnames remove_files fs =
        Inr (hooks_in_order env remove_files (filter (has_hook env) fnames) fs)"
    by (simp add: remove_duplicates_def remove_duplicates_loop_acc hooks_in_order_filter
          split: prod.splits)
next
  assume h: "\<forall>e \<in> set fnames. resolvable env e \<and> \<not> has_hook env e"
  then have "\<forall>e \<in> set fnames. resolvable env e" and "\<forall>e \<in> set fnames. \<not> has_hook env e"
    by auto
  then show "remove_duplicates env fnames remove_files fs = Inr ([], [], fs)"
    by (simp add: remove_duplicates_def remove_duplicates_loop_acc hooks_in_order_no_hook)
next
  show "remove_duplicates env [] remove_files fs = Inr ([], [], fs)"
    by (simp add: remove_duplicates_def)
qed

theorem remove_duplicates_concatenates_hook_results_witness:
  "list_all (resolvable example_dup_env) example_fnames
   \<and> filter (has_hook example_dup_env) example_fnames
       = [(''a.png'', [(''filename_format'', ''tc_fname'')]),
          (''c.png'', [(''filename_format'', ''tc_fname'')])]
   \<and> remove_duplicates example_dup_env example_fnames True []
       = Inr ([''a.png.old'', ''c.png.old''], [''a.png'', ''c.png''], [''a.png.old'', ''c.png.old''])
   \<and> list_all (\<lambda>e. resolvable example_dup_env e \<and> \<not> has_hook example_dup_env e)
         [(''b.png'', [(''filename_format'', ''geoips_fname'')])]
   \<and> remove_duplicates example_dup_env [(''b.png'', [(''filename_format'', ''geoips_fname'')])]
        True [] = Inr ([], [], [])"
  using remove_duplicates_concatenates_hook_results [of example_fnames example_dup_env True "[]"]
        remove_duplicates_concatenates_hook_results
          [of "[(''b.png'', [(''filename_format'', ''geoips_fname'')])]" example_dup_env True "[]"]
  by (simp add: example_fnames_def example_dup_env_def resolvable_def has_hook_def
        find_hook_def subscript_def tc_hook_def)

subsection \<open>update\_output\_dict\_from\_command\_line\_args\<close>

lemma map_of_fold_update:
  "map_of (fold (\<lambda>key d. AList.update key (the (map_of al key)) d) keys d) =
   map_of d ++ (map_of al |` (set keys \<inter> dom (map_of al)))"
  if "set keys \<subseteq> fst ` set al"
  using that
proof (induction keys arbitrary: d)
  case Nil
  then show ?case by simp
next
  case (Cons key keys)
  then obtain x where x: "map_of al key = Some x"
    by (metis domD dom_map_of_conv_image_fst list.set_intros(1) subsetD)
  from Cons.prems have sub: "set keys \<subseteq> fst ` set al" by simp
  show ?case
    apply (simp add: Cons.IH [OF sub] update_conv' x)
    apply (rule ext)
    apply (auto simp add: map_add_def restrict_map_def x split: option.splits)
    done
qed

lemma merge_all_fields_result:
  assumes "f < length h" "n < length h" "m < length h" "k < length h" "w < length h"
    and "m \<noteq> f" "m \<noteq> n" "m \<noteq> k" "m \<noteq> w"
    and "map_of (h ! w) ''all'' = Some (PRef k)"
    and "map_of (h ! f) fld = Some (PRef n)"
    and "map_of (h ! n) ''all'' = Some (PRef m)"
    and "set keys \<subseteq> fst ` set (h ! k)"
  shows "merge_all_fields (PRef f) fld (PRef w) keys h =
         Inr (h[m := fold (\<lambda>key d. AList.update key (the (map_of (h ! k) key)) d) keys (h ! m)])"
  using assms
proof (induction keys arbitrary: h)
  case Nil
  then show ?case by simp
next
  case (Cons key keys)
  then obtain x where x: "map_of (h ! k) key = Some x"
    by (metis domD dom_map_of_conv_image_fst list.set_intros(1) subsetD)
  let ?h = "h[m := AList.update key x (h ! m)]"
  have step: "merge_all_fields (PRef f) fld (PRef w) (key # keys) h =
              merge_all_fields (PRef f) fld (PRef w) keys ?h"
    using Cons.prems x by (simp add: py_getitem_def py_setitem_def)
  have "merge_all_fields (PRef f) fld (PRef w) keys ?h =
        Inr (?h[m := fold (\<lambda>key d. AList.update key (the (map_of (?h ! k) key)) d) keys (?h ! m)])"
    using Cons.prems by (intro Cons.IH) simp_all
  with step x Cons.prems show ?case by simp
qed


lemma merge_all_fields_map:
  assumes "f < length h" "n < length h" "m < length h" "k < length h" "w < length h"
    and "m \<noteq> f" "m \<noteq> n" "m \<noteq> k" "m \<noteq> w"
    and "map_of (h ! w) ''all'' = Some (PRef k)"
    and "map_of (h ! f) fld = Some (PRef n)"
    and "map_of (h ! n) ''all'' = Some (PRef m)"
  shows "\<exists>h'. merge_all_fields (PRef f) fld (PRef w) (map fst (h ! k)) h = Inr h'
           \<and> length h' = length h
           \<and> map_of (h' ! m) = map_of (h ! m) ++ map_of (h ! k)
           \<and> (\<forall>x. x \<noteq> m \<longrightarrow> h' ! x = h ! x)"
proof -
  let ?d = "fold (\<lambda>key d. AList.update key (the (map_of (h ! k) key)) d) (map fst (h ! k)) (h ! m)"
  have r: "merge_all_fields (PRef f) fld (PRef w) (map fst (h ! k)) h = Inr (h[m := ?d])"
    using assms by (intro merge_all_fields_result) simp_all
  have "map_of ?d = map_of (h ! m) ++ (map_of (h ! k) |` (set (map fst (h ! k)) \<inter> dom (map_of (h ! k))))"
    by (rule map_of_fold_update) simp
  also have "set (map fst (h ! k)) \<inter> dom (map_of (h ! k)) = dom (map_of (h ! k))"
    by (simp add: dom_map_of_conv_image_fst)
  also have "map_of (h ! k) |` dom (map_of (h ! k)) = map_of (h ! k)"
    by (rule ext) (auto simp add: restrict_map_def domIff)
  finally have d: "map_of ?d = map_of (h ! m) ++ map_of (h ! k)" .
  show ?thesis
    using r d assms(3) by simp
qed


lemma py_contains_dict:
  "a < length h \<Longrightarrow> py_contains h k (PRef a) = Inr (k \<in> fst ` set (h ! a))"
  by (simp add: py_contains_def)

lemma py_getitem_dict:
  "a < length h \<Longrightarrow> map_of (h ! a) k = Some x \<Longrightarrow> py_getitem h (PRef a) k = Inr x"
  by (simp add: py_getitem_def)


lemma py_iter_dict:
  "a < length h \<Longrightarrow> py_iter h (PRef a) = Inr (map fst (h ! a))"
  by (simp add: py_iter_def)


lemma map_of_Some_key: "map_of d k = Some x \<Longrightarrow> k \<in> fst ` set d"
  by (auto dest: map_of_SomeD intro: rev_image_eqI)

lemma update_field_start:
  assumes "c < length h" "map_of (h ! c) cmdline_fld_name = Some v" "v \<noteq> PNone"
  shows "update_field output_dict final_output_dict (PRef c) cmdline_fld_name h =
     (case output_field cmdline_fld_name v h of
        (output_fld_name, output_fld_val, h1) \<Rightarrow>
     bnd (py_contains h1 output_fld_name output_dict) (\<lambda>in_output_dict.
     if \<not> in_output_dict
     then py_setitem h1 final_output_dict output_fld_name output_fld_val
     else
     bnd (py_contains h1 ''all'' output_fld_val) (\<lambda>all_in_val.
     if \<not> all_in_val
     then py_setitem h1 final_output_dict cmdline_fld_name output_fld_val
     else
     bnd (py_getitem h1 output_dict output_fld_name) (\<lambda>spec_fld.
     bnd (py_contains h1 ''all'' spec_fld) (\<lambda>all_in_spec.
     if \<not> all_in_spec
     then
       bnd (py_getitem h1 output_fld_val ''all'') (\<lambda>x.
       bnd (py_getitem h1 final_output_dict output_fld_name) (\<lambda>fld.
       py_setitem h1 fld ''all'' x))
     else
       bnd (py_getitem h1 output_fld_val ''all'') (\<lambda>src.
       bnd (py_iter h1 src) (\<lambda>kwarg_names.
       merge_all_fields final_output_dict output_fld_name output_fld_val kwarg_names h1)))))))"
  unfolding update_field_def
  by (simp add: py_contains_dict [OF assms(1)] py_getitem_dict [OF assms(1,2)] assms(3)
        map_of_Some_key [OF assms(2)])

text \<open>The wrapped field of the two names the loop passes.\<close>

lemma output_field_wrapped:
  "cmdline_fld_name \<in> {''filename_format_kwargs'', ''metadata_filename_format_kwargs''} \<Longrightarrow>
   output_field cmdline_fld_name v h = (output_fld_name, output_fld_val, h1) \<Longrightarrow>
   output_fld_val = PRef (length h) \<and> h1 = h @ [[(''all'', v)]]"
  by (auto simp add: output_field_def alloc_def)




lemma update_field_all_merged:
  assumes "a < length h" "c < length h" "f < length h"
    and "map_of (h ! c) cmdline_fld_name = Some v" "v \<noteq> PNone"
    and of: "output_field cmdline_fld_name v h = (output_fld_name, output_fld_val, h1)"
    and two: "cmdline_fld_name \<in> {''filename_format_kwargs'', ''metadata_filename_format_kwargs''}"
    and "map_of (h ! a) output_fld_name = Some (PRef n)"
    and "map_of (h ! f) output_fld_name = Some (PRef n)"
    and "n < length h" "map_of (h ! n) ''all'' = Some (PRef m)" "m < length h"
    and "v = PRef k" "k < length h" "m \<noteq> f" "m \<noteq> n" "m \<noteq> k"
  shows "\<exists>h'. update_field (PRef a) (PRef f) (PRef c) cmdline_fld_name h = Inr h'
           \<and> length h' = Suc (length h)
           \<and> map_of (h' ! m) = map_of (h ! m) ++ map_of (h ! k)
           \<and> (\<forall>x < length h. x \<noteq> m \<longrightarrow> h' ! x = h ! x)
           \<and> h' ! length h = [(''all'', v)]"
proof -
  note w = output_field_wrapped [OF two of]
  let ?h1 = "h @ [[(''all'', v)]]"
  have a': "a < length ?h1" and f': "f < length ?h1" and n': "n < length ?h1"
    and w': "length h < length ?h1" and m': "m < length ?h1" and k': "k < length ?h1"
    using assms(1,3,10,12,14) by simp_all
  have ga: "py_getitem ?h1 (PRef a) output_fld_name = Inr (PRef n)"
    using assms(1,8) by (intro py_getitem_dict [OF a']) (simp add: nth_append)
  have gw: "py_getitem ?h1 (PRef (length h)) ''all'' = Inr (PRef k)"
    using assms(13) by (intro py_getitem_dict [OF w']) simp
  have red: "update_field (PRef a) (PRef f) (PRef c) cmdline_fld_name h =
             merge_all_fields (PRef f) output_fld_name (PRef (length h)) (map fst (?h1 ! k)) ?h1"
    unfolding update_field_start [OF assms(2,4,5)] of
    using w assms(1,10) map_of_Some_key [OF assms(8)] map_of_Some_key [OF assms(11)]
    by (simp add: py_contains_dict [OF a'] py_contains_dict [OF w'] py_contains_dict [OF n']
          ga gw py_iter_dict [OF k'] nth_append)
  have "\<exists>h'. merge_all_fields (PRef f) output_fld_name (PRef (length h)) (map fst (?h1 ! k)) ?h1 = Inr h'
           \<and> length h' = length ?h1
           \<and> map_of (h' ! m) = map_of (?h1 ! m) ++ map_of (?h1 ! k)
           \<and> (\<forall>x. x \<noteq> m \<longrightarrow> h' ! x = ?h1 ! x)"
    using assms(3,9,10,11,12,13,14,15,16,17)
    by (intro merge_all_fields_map) (auto simp add: nth_append)
  then obtain h' where h':
      "merge_all_fields (PRef f) output_fld_name (PRef (length h)) (map fst (?h1 ! k)) ?h1 = Inr h'"
      "length h' = length ?h1"
      "map_of (h' ! m) = map_of (?h1 ! m) ++ map_of (?h1 ! k)"
      "\<forall>x. x \<noteq> m \<longrightarrow> h' ! x = ?h1 ! x"
    by blast
  have "map_of (h' ! m) = map_of (h ! m) ++ map_of (h ! k)"
    using h'(3) assms(12,14) by (simp add: nth_append)
  moreover have "\<forall>x < length h. x \<noteq> m \<longrightarrow> h' ! x = h ! x"
    using h'(4) by (simp add: nth_append)
  moreover have "h' ! length h = [(''all'', v)]"
    using h'(4) assms(12) by (simp add: nth_append)
  ultimately show ?thesis using red h'(1,2) by simp
qed

lemma update_field_not_given:
  "c < length h \<Longrightarrow> cmdline_fld_name \<notin> fst ` set (h ! c) \<Longrightarrow>
   update_field output_dict final_output_dict (PRef c) cmdline_fld_name h = Inr h"
  by (simp add: update_field_def py_contains_dict)

lemma wrapped_value_carries_all:
  assumes "cmdline_fld_name \<in> {''filename_format_kwargs'', ''metadata_filename_format_kwargs''}"
    and "output_field cmdline_fld_name v h = (output_fld_name, output_fld_val, h1)"
  shows "py_contains h1 ''all'' output_fld_val = Inr True"
  using output_field_wrapped [OF assms] by (simp add: py_contains_def)

text \<open>
  C9: the copy is shallow. When the output spec (object \<open>a\<close>) has
  \<open>filename_formats_kwargs\<close> with an \<open>all\<close> mapping (object \<open>m\<close>) and the
  command line gives \<open>filename_format_kwargs\<close> (object \<open>k\<close>), the function
  returns a new top-level dict (address \<open>length h\<close>, not \<open>a\<close>) with the same
  items as the caller's, so it shares the nested objects; the caller's top-level dict
  and field mapping keep their items, but the \<open>all\<close> mapping the caller's spec
  refers to is itself overwritten with the command-line sub-keys.
\<close>

theorem update_output_dict_mutates_shared_all:
  assumes "a < length h" "c < length h" "n < length h" "m < length h" "k < length h"
    and "distinct [a, c, n, m, k]"
    and "map_of (h ! a) ''filename_formats_kwargs'' = Some (PRef n)"
    and "map_of (h ! n) ''all'' = Some (PRef m)"
    and "map_of (h ! c) ''filename_format_kwargs'' = Some (PRef k)"
    and "''metadata_filename_format_kwargs'' \<notin> fst ` set (h ! c)"
  shows "\<exists>h'. update_output_dict_from_command_line_args h (PRef a) (PRef c)
                = Inr (PRef (length h), h')
           \<and> length h \<noteq> a
           \<and> h' ! length h = h ! a
           \<and> h' ! a = h ! a
           \<and> h' ! n = h ! n
           \<and> map_of (h' ! m) = map_of (h ! m) ++ map_of (h ! k)"
proof -
  let ?h0 = "h @ [h ! a]"
  let ?f = "length h"
  have len: "a < length ?h0" "c < length ?h0" "?f < length ?h0" "n < length ?h0"
      "m < length ?h0" "k < length ?h0"
    using assms(1-5) by simp_all
  have nth0: "\<And>x. x < length h \<Longrightarrow> ?h0 ! x = h ! x" by (simp add: nth_append)
  have copy: "py_copy h (PRef a) = Inr (PRef ?f, ?h0)"
    using assms(1) by (simp add: py_copy_def alloc_def)
  have "\<exists>h'. update_field (PRef a) (PRef ?f) (PRef c) ''filename_format_kwargs'' ?h0 = Inr h'
           \<and> length h' = Suc (length ?h0)
           \<and> map_of (h' ! m) = map_of (?h0 ! m) ++ map_of (?h0 ! k)
           \<and> (\<forall>x < length ?h0. x \<noteq> m \<longrightarrow> h' ! x = ?h0 ! x)
           \<and> h' ! length ?h0 = [(''all'', PRef k)]"
  proof (rule update_field_all_merged [OF len(1,2,3) _ _ _ _ _ _ len(4) _ len(5) _ len(6)])
    show "map_of (?h0 ! c) ''filename_format_kwargs'' = Some (PRef k)"
      using assms(2,9) by (simp add: nth0)
    show "PRef k \<noteq> PNone" by simp
    show "output_field ''filename_format_kwargs'' (PRef k) ?h0 =
            (''filename_formats_kwargs'', PRef (length ?h0), ?h0 @ [[(''all'', PRef k)]])"
      by (simp add: output_field_def alloc_def)
    show "''filename_format_kwargs'' \<in> {''filename_format_kwargs'', ''metadata_filename_format_kwargs''}"
      by simp
    show "map_of (?h0 ! a) ''filename_formats_kwargs'' = Some (PRef n)"
      using assms(1,7) by (simp add: nth0)
    show "map_of (?h0 ! ?f) ''filename_formats_kwargs'' = Some (PRef n)"
      using assms(7) by simp
    show "map_of (?h0 ! n) ''all'' = Some (PRef m)"
      using assms(3,8) by (simp add: nth0)
    show "PRef k = PRef k" by simp
    show "m \<noteq> ?f" using assms(4) by simp
    show "m \<noteq> n" "m \<noteq> k" using assms(6) by auto
  qed
  then obtain h1 where h1:
      "update_field (PRef a) (PRef ?f) (PRef c) ''filename_format_kwargs'' ?h0 = Inr h1"
      "length h1 = Suc (length ?h0)"
      "map_of (h1 ! m) = map_of (?h0 ! m) ++ map_of (?h0 ! k)"
      "\<forall>x < length ?h0. x \<noteq> m \<longrightarrow> h1 ! x = ?h0 ! x"
    by blast
  have neq: "c \<noteq> m" "a \<noteq> m" "n \<noteq> m" "?f \<noteq> m" using assms(4,6) by auto
  have c1: "h1 ! c = h ! c" using h1(4) len(2) neq(1) assms(2) by (simp add: nth0)
  have second: "update_field (PRef a) (PRef ?f) (PRef c) ''metadata_filename_format_kwargs'' h1 = Inr h1"
    using assms(10) h1(2) len(2) c1 by (intro update_field_not_given) simp_all
  have res: "update_output_dict_from_command_line_args h (PRef a) (PRef c) = Inr (PRef ?f, h1)"
    by (simp add: update_output_dict_from_command_line_args_def copy h1(1) second)
  have "h1 ! ?f = h ! a" using h1(4) neq(4) by simp
  moreover have "h1 ! a = h ! a" using h1(4) len(1) neq(2) assms(1) by (simp add: nth0)
  moreover have "h1 ! n = h ! n" using h1(4) len(4) neq(3) assms(3) by (simp add: nth0)
  moreover have "map_of (h1 ! m) = map_of (h ! m) ++ map_of (h ! k)"
    using h1(3) assms(4,5) by (simp add: nth0)
  moreover have "length h \<noteq> a" using assms(1) by simp
  ultimately show ?thesis using res by blast
qed


lemmas heap_eval =
  update_output_dict_from_command_line_args_def update_field_def output_field_def alloc_def
  py_copy_def py_contains_def py_getitem_def py_setitem_def py_iter_def

theorem update_output_dict_mutates_shared_all_witness:
  "distinct [0, 4, 1, 2, 5 :: nat]
   \<and> update_output_dict_from_command_line_args h_cmd_only (PRef 0) (PRef 4) =
     Inr (PRef 6,
          [ [(''output_format'', PStr ''imagery_annotated''), (''filename_formats_kwargs'', PRef 1)],
            [(''all'', PRef 2), (''tc_fname'', PRef 3)],
            [(''output_dir'', PStr ''/a''), (''basedir'', PStr ''/cmd''), (''extra'', PNum 1)],
            [],
            [(''filename_format_kwargs'', PRef 5)],
            [(''basedir'', PStr ''/cmd''), (''extra'', PNum 1)],
            [(''output_format'', PStr ''imagery_annotated''), (''filename_formats_kwargs'', PRef 1)],
            [(''all'', PRef 5)] ])
   \<and> h_cmd_only ! 2 = [(''output_dir'', PStr ''/a''), (''basedir'', PStr ''/b'')]"
  using update_output_dict_mutates_shared_all
          [where a = 0 and c = 4 and n = 1 and m = 2 and k = 5 and h = h_cmd_only]
  by (simp add: heap_eval h_cmd_only_def)







subsection \<open>get\_alg\_xarray\<close>

lemma apply_xarray_to_numpy_None:
  "sect_xarrays \<noteq> [] \<Longrightarrow>
   apply_xarray_to_numpy alg_plugin alg_args product_name None sect_xarrays alg_xarray
     = Inl TypeError"
  by (cases sect_xarrays) auto

lemma subscript_Inr_nonempty: "subscript d k = Inr v \<Longrightarrow> d \<noteq> []"
  by (auto simp add: subscript_def)

text \<open>
  C8: for a product whose type is algorithm-first (\<open>alg\<close>, \<open>alg_cmap\<close> or
  \<open>alg_interp_cmap\<close>) and whose algorithm plugin has family
  \<open>xarray_to_numpy\<close>, every call of \<open>get_alg_xarray\<close> that leaves
  \<open>variable_names\<close> at \<open>None\<close> fails: the selection test reads the parameter,
  not the variables resolved from the product metadata. It fails with the
  \<open>TypeError\<close> of that test whenever the interpolation plugin resolves (and
  with the registry's error otherwise).
\<close>

theorem get_alg_xarray_xarray_to_numpy_fails_without_variable_names:
  assumes "subscript sect_xarrays ''METADATA'' = Inr metadata"
    and "source_name_of metadata = Inr source_name"
    and "get_product_type env product_name source_name \<in> {''alg'', ''alg_cmap'', ''alg_interp_cmap''}"
    and "algorithms_get_plugin env (get_alg_name env product_name source_name) = Some plugin"
    and "alg_family plugin = ''xarray_to_numpy''"
  shows "(\<exists>e. get_alg_xarray env sect_xarrays area product_name resector resampled_read None
               = Inl e)
       \<and> (\<forall>r. resolve_interp env product_name source_name None = Inr r \<longrightarrow>
             get_alg_xarray env sect_xarrays area product_name resector resampled_read None
               = Inl TypeError)"
proof -
  have ne: "sect_xarrays \<noteq> []" using assms(1) by (rule subscript_Inr_nonempty)
  have first: "\<And>vars curr.
      apply_alg_first plugin (get_alg_args env product_name source_name) product_name vars None
        area sect_xarrays curr metadata = Inl TypeError"
    using assms(5) ne by (simp add: apply_alg_first_def apply_xarray_to_numpy_None)
  have eq: "get_alg_xarray env sect_xarrays area product_name resector resampled_read None =
        (case resolve_interp env product_name source_name None of
           Inl e \<Rightarrow> Inl e | Inr r \<Rightarrow> Inl TypeError)"
    using assms(3,4)
    by (auto simp add: get_alg_xarray_def assms(1,2) get_plugin_def first Let_def
          split: sum.splits prod.splits)
  show ?thesis
    unfolding eq by (auto split: sum.splits)
qed

theorem get_alg_xarray_xarray_to_numpy_fails_without_variable_names_witness:
  "subscript abi_xarrays ''METADATA''
     = Inr \<lparr>variables = [], attrs = [(''source_name'', AStr ''abi'')], dims = []\<rparr>
   \<and> get_product_type (ir_env interp_in_place) ''Infrared'' ''abi''
       \<in> {''alg'', ''alg_cmap'', ''alg_interp_cmap''}
   \<and> alg_family ir_alg_plugin = ''xarray_to_numpy''
   \<and> get_alg_xarray (ir_env interp_in_place) abi_xarrays static_area ''Infrared'' True False None
       = Inl TypeError
   \<and> get_alg_xarray (ir_env interp_in_place) abi_xarrays static_area ''Infrared'' True False
        (Some [''B14BT''])
       = Inr \<lparr>variables = [(''Infrared'', ''interp(alg(bt))'')],
              attrs = [(''source_name'', AStr ''abi'')], dims = []\<rparr>"
  using get_alg_xarray_xarray_to_numpy_fails_without_variable_names
          [where sect_xarrays = abi_xarrays
             and metadata = "\<lparr>variables = [], attrs = [(''source_name'', AStr ''abi'')], dims = []\<rparr>"
             and source_name = "''abi''" and env = "ir_env interp_in_place"
             and product_name = "''Infrared''" and plugin = ir_alg_plugin
             and area = static_area and resector = True and resampled_read = False]
  by (simp add: get_alg_xarray_def abi_xarrays_def ir_env_def ir_alg_plugin_def subscript_def
        source_name_of_def get_plugin_def resolve_interp_def apply_alg_first_def
        finish_alg_first_def call_interp_def interp_in_place_def interp_into_def
        set_variable_def empty_dataset_def static_area_def)

lemma finish_alg_first_alg_interp_cmap:
  assumes "call_interp interp_plugin interp_args area alg_xarray alg_xarray [product_name]
             = Inr (returned, left)"
  shows "finish_alg_first interp_plugin interp_args ''alg_interp_cmap'' product_name area alg_xarray
         = (case map_of (sector_info area) ''adjustment_id'' of
              None \<Rightarrow> Inr returned
            | Some adjustment_id \<Rightarrow> add_filename_extra_field left ''adjustment_id'' adjustment_id)"
  using assms by (auto simp add: finish_alg_first_def bnd_def split: option.splits sum.splits)

lemma get_alg_xarray_alg_interp_cmap:
  assumes "subscript sect_xarrays ''METADATA'' = Inr metadata"
    and "source_name_of metadata = Inr source_name"
    and "get_product_type env product_name source_name = ''alg_interp_cmap''"
    and "algorithms_get_plugin env (get_alg_name env product_name source_name) = Some plugin"
    and "resolve_interp env product_name source_name None = Inr (interp_plugin, interp_args)"
    and "apply_alg_first plugin (get_alg_args env product_name source_name) product_name
           (if variable_names = None \<or> variable_names = Some []
            then get_required_variables env product_name source_name else the variable_names)
           variable_names area sect_xarrays
           (if resector
            then sector_xarrays env sect_xarrays area
                   (if variable_names = None \<or> variable_names = Some []
                    then get_required_variables env product_name source_name
                    else the variable_names)
            else sect_xarrays)
           metadata = Inr alg_xarray"
    and "call_interp interp_plugin interp_args area alg_xarray alg_xarray [product_name]
           = Inr (returned, left)"
  shows "get_alg_xarray env sect_xarrays area product_name resector resampled_read variable_names
         = (case map_of (sector_info area) ''adjustment_id'' of
              None \<Rightarrow> Inr returned
            | Some adjustment_id \<Rightarrow> add_filename_extra_field left ''adjustment_id'' adjustment_id)"
  unfolding get_alg_xarray_def
  by (simp add: assms(1-5) get_plugin_def Let_def assms(6)
        finish_alg_first_alg_interp_cmap [OF assms(7)])

text \<open>
  C4, at an interpolator that returns a new dataset: without an \<open>adjustment_id\<close>
  the builder returns the interpolated algorithm result; with one (the area
  \<open>tc_area\<close>) it returns the algorithm's dataset, not interpolated, with the
  \<open>adjustment_id\<close> stamped. With an interpolator that writes into its
  \<open>output_xarray\<close> the stamped dataset is the interpolated one.
\<close>

theorem get_alg_xarray_adjustment_id_drops_interpolation:
  "get_alg_xarray (ir_env interp_fresh) abi_xarrays static_area ''Infrared'' False False
      (Some [''B14BT''])
     = Inr \<lparr>variables = [(''Infrared'', ''interp(alg(bt))'')],
            attrs = [(''source_name'', AStr ''abi'')], dims = []\<rparr>
   \<and> get_alg_xarray (ir_env interp_fresh) abi_xarrays tc_area ''Infrared'' False False
      (Some [''B14BT''])
     = Inr \<lparr>variables = [(''Infrared'', ''alg(bt)'')],
            attrs = [(''source_name'', AStr ''abi''),
                     (''filename_extra_fields'', AFields [(''adjustment_id'', IStr ''archer'')])],
            dims = []\<rparr>
   \<and> get_alg_xarray (ir_env interp_in_place) abi_xarrays tc_area ''Infrared'' False False
      (Some [''B14BT''])
     = Inr \<lparr>variables = [(''Infrared'', ''interp(alg(bt))'')],
            attrs = [(''source_name'', AStr ''abi''),
                     (''filename_extra_fields'', AFields [(''adjustment_id'', IStr ''archer'')])],
            dims = []\<rparr>"
  by (simp add: get_alg_xarray_def abi_xarrays_def ir_env_def ir_alg_plugin_def subscript_def
        source_name_of_def get_plugin_def resolve_interp_def apply_alg_first_def
        finish_alg_first_def call_interp_def interp_in_place_def interp_fresh_def interp_into_def
        set_variable_def empty_dataset_def static_area_def tc_area_def
        add_filename_extra_field_def)

subsection \<open>plot\_data and process\_xarray\_dict\_to\_output\_format\<close>

lemma output_all_metadata_empty:
  "output_all_metadata env output_dict [] [] xarray_obj area = Inr []"
  by (simp add: output_all_metadata_def)

lemma plot_data_after_names:
  assumes "output_formats_get_plugin env (get_output_format env output_dict) = Some plugin"
    and "(if no_output \<or> out_family plugin \<in> set OUTPUT_FAMILIES_WITH_NO_OUTFNAMES_ARG
          then Inr ([], [])
          else get_output_filenames env output_dict product_name alg_xarray (Some area) None)
         = Inr (output_fnames, metadata_fnames)"
  shows "plot_data env output_dict alg_xarray area product_name fused_xarray_dict no_output =
     bnd (if out_family plugin = ''xarray_data''
          then
            bnd (out_call plugin
                   (XarrayData alg_xarray [product_name, ''latitude'', ''longitude'']
                      (map fst output_fnames)))
              (\<lambda>output_products. check_products output_products output_fnames)
          else
            bnd (resolve_mpl_colors_info env product_name alg_xarray) (\<lambda>mpl_colors_info.
            if out_family plugin = ''image''
            then
              bnd (out_call plugin
                     (Image area alg_xarray product_name (map fst output_fnames) mpl_colors_info))
                (\<lambda>output_products. check_products output_products output_fnames)
            else if out_family plugin = ''unprojected''
            then
              bnd (out_call plugin
                     (Unprojected alg_xarray product_name (map fst output_fnames) mpl_colors_info))
                (\<lambda>output_products. check_products output_products output_fnames)
            else if out_family plugin = ''image_overlay''
            then
              bnd (out_call plugin
                     (ImageOverlay area alg_xarray product_name (map fst output_fnames)
                        mpl_colors_info))
                (\<lambda>output_products. check_products output_products output_fnames)
            else if out_family plugin = ''xrdict_area_product_outfnames_to_outlist''
            then
              bnd (out_call plugin
                     (XrdictAreaProductOutfnames fused_xarray_dict (Some area) product_name
                        (map fst output_fnames) mpl_colors_info))
                (\<lambda>output_products. check_products output_products output_fnames)
            else if out_family plugin = ''xrdict_area_product_to_outlist''
            then
              out_call plugin
                (XrdictAreaProduct fused_xarray_dict (Some area) product_name mpl_colors_info)
            else Inl (ValueError ''Unsupported output family'')))
       (\<lambda>output_products.
     output_all_metadata env output_dict output_fnames metadata_fnames alg_xarray (Some area))"
  unfolding plot_data_def
  apply (simp only: get_plugin_def assms(1) option.case bnd_simps)
  apply (simp only: assms(2) bnd_simps prod.case)
  done

lemma check_products_eq:
  "bnd (check_products output_products output_fnames) f =
   (if output_products = Some (map fst output_fnames) then f output_products
    else Inl did_not_produce)"
  by (simp add: check_products_def)

lemma plot_data_checked_family:
  assumes "output_formats_get_plugin env (get_output_format env output_dict) = Some plugin"
    and "out_family plugin \<in> {''xarray_data'', ''image'', ''unprojected'', ''image_overlay'',
                               ''xrdict_area_product_outfnames_to_outlist''}"
    and "(if no_output then Inr ([], [])
          else get_output_filenames env output_dict product_name alg_xarray (Some area) None)
         = Inr (output_fnames, metadata_fnames)"
    and "out_family plugin \<noteq> ''xarray_data'' \<longrightarrow>
         resolve_mpl_colors_info env product_name alg_xarray = Inr mpl_colors_info"
    and "plot_call (out_family plugin) alg_xarray area product_name fused_xarray_dict
           (map fst output_fnames) mpl_colors_info = Some args"
    and "out_call plugin args = Inr output_products"
  shows "plot_data env output_dict alg_xarray area product_name fused_xarray_dict no_output =
         (if output_products = Some (map fst output_fnames)
          then output_all_metadata env output_dict output_fnames metadata_fnames alg_xarray
                 (Some area)
          else Inl did_not_produce)"
proof -
  have nf: "out_family plugin \<notin> set OUTPUT_FAMILIES_WITH_NO_OUTFNAMES_ARG"
    using assms(2) by (auto simp add: OUTPUT_FAMILIES_WITH_NO_OUTFNAMES_ARG_def)
  have names: "(if no_output \<or> out_family plugin \<in> set OUTPUT_FAMILIES_WITH_NO_OUTFNAMES_ARG
          then Inr ([], [])
          else get_output_filenames env output_dict product_name alg_xarray (Some area) None)
         = Inr (output_fnames, metadata_fnames)"
    using assms(3) nf by (simp split: if_splits)
  note unfold = plot_data_after_names [OF assms(1) names]
  show ?thesis
  proof (cases "out_family plugin = ''xarray_data''")
    case True
    with assms(5,6) have call: "out_call plugin (XarrayData alg_xarray
        [product_name, ''latitude'', ''longitude''] (map fst output_fnames)) = Inr output_products"
      by (simp add: plot_call_def)
    show ?thesis
      unfolding unfold using True by (simp add: call check_products_eq)
  next
    case False
    with assms(4) have mpl: "resolve_mpl_colors_info env product_name alg_xarray = Inr mpl_colors_info"
      by simp
    from False assms(2) consider
        (image) "out_family plugin = ''image''"
      | (unprojected) "out_family plugin = ''unprojected''"
      | (overlay) "out_family plugin = ''image_overlay''"
      | (xrdict) "out_family plugin = ''xrdict_area_product_outfnames_to_outlist''"
      by auto
    then show ?thesis
    proof cases
      case image
      with assms(5,6) have call: "out_call plugin (Image area alg_xarray product_name
          (map fst output_fnames) mpl_colors_info) = Inr output_products"
        by (simp add: plot_call_def)
      show ?thesis
        unfolding unfold using image by (simp add: mpl call check_products_eq)
    next
      case unprojected
      with assms(5,6) have call: "out_call plugin (Unprojected alg_xarray product_name
          (map fst output_fnames) mpl_colors_info) = Inr output_products"
        by (simp add: plot_call_def)
      show ?thesis
        unfolding unfold using unprojected by (simp add: mpl call check_products_eq)
    next
      case overlay
      with assms(5,6) have call: "out_call plugin (ImageOverlay area alg_xarray product_name
          (map fst output_fnames) mpl_colors_info) = Inr output_products"
        by (simp add: plot_call_def)
      show ?thesis
        unfolding unfold using overlay by (simp add: mpl call check_products_eq)
    next
      case xrdict
      with assms(5,6) have call: "out_call plugin (XrdictAreaProductOutfnames fused_xarray_dict
          (Some area) product_name (map fst output_fnames) mpl_colors_info) = Inr output_products"
        by (simp add: plot_call_def)
      show ?thesis
        unfolding unfold using xrdict by (simp add: mpl call check_products_eq)
    qed
  qed
qed

lemma plot_data_unchecked_family:
  assumes "output_formats_get_plugin env (get_output_format env output_dict) = Some plugin"
    and "out_family plugin = ''xrdict_area_product_to_outlist''"
    and "resolve_mpl_colors_info env product_name alg_xarray = Inr mpl_colors_info"
    and "out_call plugin
           (XrdictAreaProduct fused_xarray_dict (Some area) product_name mpl_colors_info)
         = Inr output_products"
  shows "plot_data env output_dict alg_xarray area product_name fused_xarray_dict no_output
         = Inr []"
proof -
  have names: "(if no_output \<or> out_family plugin \<in> set OUTPUT_FAMILIES_WITH_NO_OUTFNAMES_ARG
          then Inr ([], [])
          else get_output_filenames env output_dict product_name alg_xarray (Some area) None)
         = Inr ([], [])"
    using assms(2) by (simp add: OUTPUT_FAMILIES_WITH_NO_OUTFNAMES_ARG_def)
  show ?thesis
    unfolding plot_data_after_names [OF assms(1) names]
    using assms(2) by (simp add: assms(3,4) output_all_metadata_empty)
qed

lemma process_xarray_dict_checked_family:
  assumes "subscript xobjs ''METADATA'' = Inr metadata"
    and "source_name_of metadata = Inr source_name"
    and "product_type_of env product_name source_name
           \<in> set PRODUCT_FAMILIES_FOR_XARRAY_DICT_TO_OUTPUT_FORMAT"
    and "output_formats_get_plugin env (get_output_format env output_dict) = Some plugin"
    and "out_family plugin \<in> set OUTPUT_FAMILIES_WITH_OUTFNAMES_ARG"
    and "get_output_filenames env output_dict product_name metadata area
           (Some FILENAME_FORMATS_FOR_XARRAY_DICT_TO_OUTPUT_FORMAT)
         = Inr (output_fnames, metadata_fnames)"
    and "xrdict_call (out_family plugin) xobjs variables_req area product_name
           (map fst output_fnames) = Some args"
    and "out_call plugin args = Inr curr_products"
  shows "process_xarray_dict_to_output_format env xobjs variables_req product_name output_dict area
         = (if curr_products = Some (map fst output_fnames)
            then output_all_metadata env output_dict output_fnames metadata_fnames metadata area
            else Inl did_not_produce)"
proof -
  from assms(5) consider
      (varlist) "out_family plugin = ''xrdict_varlist_outfnames_to_outlist''"
    | (area_product) "out_family plugin = ''xrdict_area_product_outfnames_to_outlist''"
    by (auto simp add: OUTPUT_FAMILIES_WITH_OUTFNAMES_ARG_def)
  then show ?thesis
  proof cases
    case varlist
    with assms(7) have "args = XrdictVarlistOutfnames xobjs variables_req (map fst output_fnames)"
      by (simp add: xrdict_call_def)
    then show ?thesis
      unfolding process_xarray_dict_to_output_format_def
      using varlist assms(3,8)
      by (simp add: assms(1,2,4,6) get_plugin_def check_products_def
            OUTPUT_FAMILIES_WITH_OUTFNAMES_ARG_def)
  next
    case area_product
    with assms(7) have "args = XrdictAreaProductOutfnames (Some xobjs) area product_name
        (map fst output_fnames) None"
      by (simp add: xrdict_call_def)
    then show ?thesis
      unfolding process_xarray_dict_to_output_format_def
      using area_product assms(3,8)
      by (simp add: assms(1,2,4,6) get_plugin_def check_products_def
            OUTPUT_FAMILIES_WITH_OUTFNAMES_ARG_def)
  qed
qed

lemma process_xarray_dict_unchecked_family:
  assumes "subscript xobjs ''METADATA'' = Inr metadata"
    and "source_name_of metadata = Inr source_name"
    and "product_type_of env product_name source_name
           \<in> set PRODUCT_FAMILIES_FOR_XARRAY_DICT_TO_OUTPUT_FORMAT"
    and "output_formats_get_plugin env (get_output_format env output_dict) = Some plugin"
    and "out_family plugin = ''xrdict_area_product_to_outlist''"
    and "out_call plugin (XrdictAreaProduct (Some xobjs) area product_name None)
         = Inr curr_products"
  shows "process_xarray_dict_to_output_format env xobjs variables_req product_name output_dict area
         = Inl (UnboundLocalError ''final_products'')"
  unfolding process_xarray_dict_to_output_format_def
  using assms(3,5,6)
  by (simp add: assms(1,2,4) get_plugin_def OUTPUT_FAMILIES_WITH_OUTFNAMES_ARG_def)

text \<open>
  C1: in a render through a family that is given the file names, the list the
  output-format plugin returns must equal the list of the pre-computed output file
  names, in order: \<open>plot_data\<close> (families \<open>xarray_data\<close>, \<open>image\<close>,
  \<open>unprojected\<close>, \<open>image_overlay\<close>,
  \<open>xrdict_area_product_outfnames_to_outlist\<close>) and
  \<open>process_xarray_dict_to_output_format\<close> (families
  \<open>xrdict_varlist_outfnames_to_outlist\<close>,
  \<open>xrdict_area_product_outfnames_to_outlist\<close>) go on to the metadata output when
  the lists are equal and raise the did-not-produce-expected-products
  \<open>ValueError\<close> for any other return value. For the family
  \<open>xrdict_area_product_to_outlist\<close> no file names are declared and the return
  value is not compared with anything: whatever the plugin returns, \<open>plot_data\<close>
  returns the empty dict of products, and
  \<open>process_xarray_dict_to_output_format\<close> ends at its \<open>return\<close>, which reads
  the variable \<open>final_products\<close> that this path never assigns.
\<close>

theorem render_products_must_equal_output_fnames:
  "(output_formats_get_plugin env (get_output_format env output_dict) = Some plugin
    \<and> out_family plugin \<in> {''xarray_data'', ''image'', ''unprojected'', ''image_overlay'',
                              ''xrdict_area_product_outfnames_to_outlist''}
    \<and> (if no_output then Inr ([], [])
        else get_output_filenames env output_dict product_name alg_xarray (Some area) None)
       = Inr (output_fnames, metadata_fnames)
    \<and> (out_family plugin \<noteq> ''xarray_data'' \<longrightarrow>
         resolve_mpl_colors_info env product_name alg_xarray = Inr mpl_colors_info)
    \<and> plot_call (out_family plugin) alg_xarray area product_name fused_xarray_dict
         (map fst output_fnames) mpl_colors_info = Some args
    \<and> out_call plugin args = Inr output_products
    \<longrightarrow>
    plot_data env output_dict alg_xarray area product_name fused_xarray_dict no_output =
      (if output_products = Some (map fst output_fnames)
       then output_all_metadata env output_dict output_fnames metadata_fnames alg_xarray
              (Some area)
       else Inl did_not_produce))
   \<and> (output_formats_get_plugin env (get_output_format env output_dict) = Some plugin
    \<and> out_family plugin = ''xrdict_area_product_to_outlist''
    \<and> resolve_mpl_colors_info env product_name alg_xarray = Inr mpl_colors_info
    \<and> out_call plugin
         (XrdictAreaProduct fused_xarray_dict (Some area) product_name mpl_colors_info)
       = Inr output_products
    \<longrightarrow>
    plot_data env output_dict alg_xarray area product_name fused_xarray_dict no_output = Inr [])
   \<and> (subscript xobjs ''METADATA'' = Inr metadata
    \<and> source_name_of metadata = Inr source_name
    \<and> product_type_of env product_name source_name
         \<in> set PRODUCT_FAMILIES_FOR_XARRAY_DICT_TO_OUTPUT_FORMAT
    \<and> output_formats_get_plugin env (get_output_format env output_dict) = Some plugin
    \<and> out_family plugin \<in> {''xrdict_varlist_outfnames_to_outlist'',
                              ''xrdict_area_product_outfnames_to_outlist''}
    \<and> get_output_filenames env output_dict product_name metadata area_opt
         (Some FILENAME_FORMATS_FOR_XARRAY_DICT_TO_OUTPUT_FORMAT)
       = Inr (output_fnames, metadata_fnames)
    \<and> xrdict_call (out_family plugin) xobjs variables_req area_opt product_name
         (map fst output_fnames) = Some args
    \<and> out_call plugin args = Inr output_products
    \<longrightarrow>
    process_xarray_dict_to_output_format env xobjs variables_req product_name output_dict area_opt
      = (if output_products = Some (map fst output_fnames)
         then output_all_metadata env output_dict output_fnames metadata_fnames metadata area_opt
         else Inl did_not_produce))
   \<and> (subscript xobjs ''METADATA'' = Inr metadata
    \<and> source_name_of metadata = Inr source_name
    \<and> product_type_of env product_name source_name
         \<in> set PRODUCT_FAMILIES_FOR_XARRAY_DICT_TO_OUTPUT_FORMAT
    \<and> output_formats_get_plugin env (get_output_format env output_dict) = Some plugin
    \<and> out_family plugin = ''xrdict_area_product_to_outlist''
    \<and> out_call plugin (XrdictAreaProduct (Some xobjs) area_opt product_name None)
       = Inr output_products
    \<longrightarrow>
    process_xarray_dict_to_output_format env xobjs variables_req product_name output_dict area_opt
      = Inl (UnboundLocalError ''final_products''))"
proof (intro conjI)
  show "output_formats_get_plugin env (get_output_format env output_dict) = Some plugin
    \<and> out_family plugin \<in> {''xarray_data'', ''image'', ''unprojected'', ''image_overlay'',
                              ''xrdict_area_product_outfnames_to_outlist''}
    \<and> (if no_output then Inr ([], [])
        else get_output_filenames env output_dict product_name alg_xarray (Some area) None)
       = Inr (output_fnames, metadata_fnames)
    \<and> (out_family plugin \<noteq> ''xarray_data'' \<longrightarrow>
         resolve_mpl_colors_info env product_name alg_xarray = Inr mpl_colors_info)
    \<and> plot_call (out_family plugin) alg_xarray area product_name fused_xarray_dict
         (map fst output_fnames) mpl_colors_info = Some args
    \<and> out_call plugin args = Inr output_products
    \<longrightarrow>
    plot_data env output_dict alg_xarray area product_name fused_xarray_dict no_output =
      (if output_products = Some (map fst output_fnames)
       then output_all_metadata env output_dict output_fnames metadata_fnames alg_xarray
              (Some area)
       else Inl did_not_produce)"
    using plot_data_checked_family
      [of env output_dict plugin no_output product_name alg_xarray area output_fnames
          metadata_fnames mpl_colors_info fused_xarray_dict args output_products]
    by blast
next
  show "output_formats_get_plugin env (get_output_format env output_dict) = Some plugin
    \<and> out_family plugin = ''xrdict_area_product_to_outlist''
    \<and> resolve_mpl_colors_info env product_name alg_xarray = Inr mpl_colors_info
    \<and> out_call plugin
         (XrdictAreaProduct fused_xarray_dict (Some area) product_name mpl_colors_info)
       = Inr output_products
    \<longrightarrow>
    plot_data env output_dict alg_xarray area product_name fused_xarray_dict no_output = Inr []"
    using plot_data_unchecked_family
      [of env output_dict plugin product_name alg_xarray mpl_colors_info fused_xarray_dict area
          output_products no_output]
    by blast
next
  have fams: "set OUTPUT_FAMILIES_WITH_OUTFNAMES_ARG =
      {''xrdict_varlist_outfnames_to_outlist'', ''xrdict_area_product_outfnames_to_outlist''}"
    by (simp add: OUTPUT_FAMILIES_WITH_OUTFNAMES_ARG_def)
  show "subscript xobjs ''METADATA'' = Inr metadata
    \<and> source_name_of metadata = Inr source_name
    \<and> product_type_of env product_name source_name
         \<in> set PRODUCT_FAMILIES_FOR_XARRAY_DICT_TO_OUTPUT_FORMAT
    \<and> output_formats_get_plugin env (get_output_format env output_dict) = Some plugin
    \<and> out_family plugin \<in> {''xrdict_varlist_outfnames_to_outlist'',
                              ''xrdict_area_product_outfnames_to_outlist''}
    \<and> get_output_filenames env output_dict product_name metadata area_opt
         (Some FILENAME_FORMATS_FOR_XARRAY_DICT_TO_OUTPUT_FORMAT)
       = Inr (output_fnames, metadata_fnames)
    \<and> xrdict_call (out_family plugin) xobjs variables_req area_opt product_name
         (map fst output_fnames) = Some args
    \<and> out_call plugin args = Inr output_products
    \<longrightarrow>
    process_xarray_dict_to_output_format env xobjs variables_req product_name output_dict area_opt
      = (if output_products = Some (map fst output_fnames)
         then output_all_metadata env output_dict output_fnames metadata_fnames metadata area_opt
         else Inl did_not_produce)"
    using process_xarray_dict_checked_family
      [of xobjs metadata source_name env product_name output_dict plugin area_opt output_fnames
          metadata_fnames variables_req args output_products]
    unfolding fams by blast
next
  show "subscript xobjs ''METADATA'' = Inr metadata
    \<and> source_name_of metadata = Inr source_name
    \<and> product_type_of env product_name source_name
         \<in> set PRODUCT_FAMILIES_FOR_XARRAY_DICT_TO_OUTPUT_FORMAT
    \<and> output_formats_get_plugin env (get_output_format env output_dict) = Some plugin
    \<and> out_family plugin = ''xrdict_area_product_to_outlist''
    \<and> out_call plugin (XrdictAreaProduct (Some xobjs) area_opt product_name None)
       = Inr output_products
    \<longrightarrow>
    process_xarray_dict_to_output_format env xobjs variables_req product_name output_dict area_opt
      = Inl (UnboundLocalError ''final_products'')"
    using process_xarray_dict_unchecked_family
      [of xobjs metadata source_name env product_name output_dict plugin area_opt
          output_products variables_req]
    by blast
qed

lemmas render_eval =
  plot_data_def process_xarray_dict_to_output_format_def output_all_metadata_def
  check_products_def did_not_produce_def resolve_mpl_colors_info_def get_plugin_def
  render_env_def ir_dataset_def abi_xarrays_def source_name_of_def subscript_def
  OUTPUT_FAMILIES_WITH_OUTFNAMES_ARG_def OUTPUT_FAMILIES_WITH_NO_OUTFNAMES_ARG_def
  PRODUCT_FAMILIES_FOR_XARRAY_DICT_TO_OUTPUT_FORMAT_def
  FILENAME_FORMATS_FOR_XARRAY_DICT_TO_OUTPUT_FORMAT_def plot_call_def xrdict_call_def

theorem render_products_must_equal_output_fnames_witness:
  "plot_data (render_env ''image'' (Some [''a.png''])) () ir_dataset static_area ''Infrared''
      None False
     = Inr [(''a.png'', [(''filename_format'', ''geoips_fname'')]),
            (''a.png.yaml'', [(''filename_format'', ''geoips_fname'')])]
   \<and> plot_data (render_env ''image'' (Some [''a.png'', ''b.png''])) () ir_dataset static_area
        ''Infrared'' None False
     = Inl (ValueError ''Did not produce expected products'')
   \<and> plot_data (render_env ''xarray_data'' None) () ir_dataset static_area ''Infrared'' None False
     = Inl (ValueError ''Did not produce expected products'')
   \<and> plot_data (render_env ''xrdict_area_product_to_outlist'' (Some [''b.png''])) () ir_dataset
        static_area ''Infrared'' None False
     = Inr []
   \<and> process_xarray_dict_to_output_format
        (render_env ''xrdict_varlist_outfnames_to_outlist'' (Some [''a.png'']))
        abi_xarrays [''B14BT''] ''Infrared'' () (Some static_area)
     = Inr [(''a.png'', [(''filename_format'', ''geoips_fname'')]),
            (''a.png.yaml'', [(''filename_format'', ''geoips_fname'')])]
   \<and> process_xarray_dict_to_output_format
        (render_env ''xrdict_area_product_outfnames_to_outlist'' (Some []))
        abi_xarrays [''B14BT''] ''Infrared'' () (Some static_area)
     = Inl (ValueError ''Did not produce expected products'')
   \<and> process_xarray_dict_to_output_format
        (render_env ''xrdict_area_product_to_outlist'' (Some [''b.png'']))
        abi_xarrays [''B14BT''] ''Infrared'' () (Some static_area)
     = Inl (UnboundLocalError ''final_products'')"
  using render_products_must_equal_output_fnames
          [where env = "render_env ''image'' (Some [''a.png''])" and output_dict = "()"
             and plugin = "\<lparr>out_family = ''image'', out_call = (\<lambda>args. Inr (Some [''a.png'']))\<rparr>"
             and no_output = False and product_name = "''Infrared''" and alg_xarray = ir_dataset
             and area = static_area
             and output_fnames = "[(''a.png'', [(''filename_format'', ''geoips_fname'')])]"
             and metadata_fnames = "[(Some ''a.png.yaml'', [(''filename_format'', ''geoips_fname'')])]"
             and mpl_colors_info = None and fused_xarray_dict = None
             and args = "Image static_area ir_dataset ''Infrared'' [''a.png''] None"
             and output_products = "Some [''a.png'']"]
        render_products_must_equal_output_fnames
          [where env = "render_env ''xrdict_area_product_to_outlist'' (Some [''b.png''])"
             and output_dict = "()"
             and plugin = "\<lparr>out_family = ''xrdict_area_product_to_outlist'',
                             out_call = (\<lambda>args. Inr (Some [''b.png'']))\<rparr>"
             and no_output = False and product_name = "''Infrared''" and alg_xarray = ir_dataset
             and area = static_area and mpl_colors_info = None and fused_xarray_dict = None
             and output_products = "Some [''b.png'']"
             and xobjs = abi_xarrays
             and metadata = "\<lparr>variables = [], attrs = [(''source_name'', AStr ''abi'')], dims = []\<rparr>"
             and source_name = "''abi''" and area_opt = "Some static_area"
             and variables_req = "[''B14BT'']"]
        render_products_must_equal_output_fnames
          [where env = "render_env ''xrdict_area_product_outfnames_to_outlist'' (Some [])"
             and output_dict = "()"
             and plugin = "\<lparr>out_family = ''xrdict_area_product_outfnames_to_outlist'',
                             out_call = (\<lambda>args. Inr (Some []))\<rparr>"
             and product_name = "''Infrared''"
             and output_fnames = "[(''a.png'', [(''filename_format'', ''geoips_fname'')])]"
             and metadata_fnames = "[(Some ''a.png.yaml'', [(''filename_format'', ''geoips_fname'')])]"
             and output_products = "Some []"
             and xobjs = abi_xarrays
             and metadata = "\<lparr>variables = [], attrs = [(''source_name'', AStr ''abi'')], dims = []\<rparr>"
             and source_name = "''abi''" and area_opt = "Some static_area"
             and variables_req = "[''B14BT'']"
             and args = "XrdictAreaProductOutfnames (Some abi_xarrays) (Some static_area)
                           ''Infrared'' [''a.png''] None"]
  by (simp add: render_eval)

subsection \<open>The coverage gate\<close>

lemma bnd_eq_Inr: "bnd m f = Inr y \<longleftrightarrow> (\<exists>x. m = Inr x \<and> f x = Inr y)"
  by (cases m) simp_all

lemma coverage_gate_effective:
  assumes "minimum_is_number override alg_xarray"
  shows "coverage_gate alg_xarray override covg fname_covg =
           Inr (covg < effective_minimum_coverage override alg_xarray
                \<and> fname_covg < effective_minimum_coverage override alg_xarray)"
  using assms
  by (auto simp add: coverage_gate_def minimum_is_number_def effective_minimum_coverage_def
        split: option.splits attr.splits)

lemma render_product_events:
  assumes "render_product env scope output_type output_dict product_name cpath alg_xarray site st
             = Inr st2"
  shows "\<exists>pre. events st2 = pre @ [Produced output_type product_name]"
  using assms
  by (auto simp add: render_product_def bnd_eq_Inr split: prod.splits if_splits)

lemma render_product_not_skipped:
  "render_product env scope output_type output_dict product_name cpath alg_xarray site st
     \<noteq> Inr (st1\<lparr>events := events st1 @ [InsufficientCoverage output_type product_name]\<rparr>)"
proof
  assume "render_product env scope output_type output_dict product_name cpath alg_xarray site st
            = Inr (st1\<lparr>events := events st1 @ [InsufficientCoverage output_type product_name]\<rparr>)"
  from render_product_events [OF this] show False by simp
qed

lemma single_source_render_events:
  assumes "single_source_render env command_line_args product_name area alg_xarray st = Inr st2"
  shows "\<exists>pre. ss_events st2 = pre @ [Produced (ad_name area) product_name]"
  using assms
  by (auto simp add: single_source_render_def bnd_eq_Inr split: prod.splits if_splits)

lemma single_source_render_not_skipped:
  "single_source_render env command_line_args product_name area alg_xarray st
     \<noteq> Inr (st1\<lparr>ss_events :=
                   ss_events st1 @ [InsufficientCoverage (ad_name area) product_name]\<rparr>)"
proof
  assume "single_source_render env command_line_args product_name area alg_xarray st
            = Inr (st1\<lparr>ss_events :=
                        ss_events st1 @ [InsufficientCoverage (ad_name area) product_name]\<rparr>)"
  from single_source_render_events [OF this] show False by simp
qed

lemma config_product_step_gate:
  assumes "subscript (scope_pad_sect_xarrays scope) ''METADATA'' = Inr metadata"
    and "source_name_of metadata = Inr source_name"
    and "get_required_variables (alg_part env) product_name source_name = product_variables"
    and "set product_variables \<subseteq> set (scope_all_vars scope)"
    and "set_comparison_path env output_dict product_name output_type = (cpath, cmodule)"
    and "process_sectored_data_output (plot_part env) (scope_pad_sect_xarrays scope)
           product_variables product_name output_dict (Some (scope_area_def scope)) = Inr []"
    and "cached_alg_xarray env scope output_dict product_name product_variables
           (enter_ledger cpath cmodule st) = Inr (alg_xarray, site, st1)"
    and "coverage_values env output_dict product_name alg_xarray (scope_area_def scope)
           = Inr (covg, fname_covg)"
    and "minimum_is_number (get_minimum_coverage env product_name output_dict) alg_xarray"
  shows "config_product_step env scope output_type output_dict product_name st =
           (if covg < effective_minimum_coverage
                        (get_minimum_coverage env product_name output_dict) alg_xarray
               \<and> fname_covg < effective_minimum_coverage
                                 (get_minimum_coverage env product_name output_dict) alg_xarray
            then Inr (st1\<lparr>events :=
                            events st1 @ [InsufficientCoverage output_type product_name]\<rparr>)
            else render_product env scope output_type output_dict product_name cpath alg_xarray
                   site st1)"
  unfolding config_product_step_def
  by (simp add: assms coverage_gate_effective Let_def)

lemma single_source_product_gate:
  assumes "set variables_req \<subseteq> set (collect_all_vars env pad_sect_xarrays)"
    and "single_source_alg_xarray env command_line_args product_name variables_req area pad_area
           pad_sect_xarrays resampled_read = Inr built"
    and "coverage_values env command_line_args product_name built area = Inr (covg, fname_covg)"
    and "minimum_is_number (get_minimum_coverage env product_name command_line_args)
           (add_new_attrs new_attrs built)"
  shows "single_source_product env command_line_args product_name variables_req xobjs area
           pad_area pad_sect_xarrays resampled_read new_attrs st =
           (if covg < effective_minimum_coverage
                        (get_minimum_coverage env product_name command_line_args)
                        (add_new_attrs new_attrs built)
               \<and> fname_covg < effective_minimum_coverage
                                 (get_minimum_coverage env product_name command_line_args)
                                 (add_new_attrs new_attrs built)
            then Inr (st\<lparr>ss_events :=
                           ss_events st @ [InsufficientCoverage (ad_name area) product_name]\<rparr>)
            else single_source_render env command_line_args product_name area
                   (add_new_attrs new_attrs built) st)"
  unfolding single_source_product_def
  by (simp add: assms coverage_gate_effective Let_def)

text \<open>
  C2: in both orchestrators, once the product's dataset is built and its two coverage
  values are computed, the product is skipped for insufficient coverage if and only
  if both the image-production coverage and the filename coverage are strictly below
  the effective minimum, which is the override of the command line or config when
  there is one, else the dataset's \<open>minimum_coverage\<close> attribute when it has
  one, else 10; otherwise the product goes to the renderer, in particular when the
  image-production coverage equals the minimum. The first conjunct is
  \<open>config_based\<close>, the second \<open>single_source\<close>.
\<close>

theorem coverage_gate_skips_iff_both_below_minimum:
  "(subscript (scope_pad_sect_xarrays scope) ''METADATA'' = Inr metadata
    \<and> source_name_of metadata = Inr source_name
    \<and> get_required_variables (alg_part env) product_name source_name = product_variables
    \<and> set product_variables \<subseteq> set (scope_all_vars scope)
    \<and> set_comparison_path env output_dict product_name output_type = (cpath, cmodule)
    \<and> process_sectored_data_output (plot_part env) (scope_pad_sect_xarrays scope)
         product_variables product_name output_dict (Some (scope_area_def scope)) = Inr []
    \<and> cached_alg_xarray env scope output_dict product_name product_variables
         (enter_ledger cpath cmodule st) = Inr (alg_xarray, site, st1)
    \<and> coverage_values env output_dict product_name alg_xarray (scope_area_def scope)
         = Inr (covg, fname_covg)
    \<and> minimum_is_number (get_minimum_coverage env product_name output_dict) alg_xarray
    \<and> m = effective_minimum_coverage (get_minimum_coverage env product_name output_dict)
             alg_xarray
    \<longrightarrow>
      config_product_step env scope output_type output_dict product_name st =
        (if covg < m \<and> fname_covg < m
         then Inr (st1\<lparr>events := events st1 @ [InsufficientCoverage output_type product_name]\<rparr>)
         else render_product env scope output_type output_dict product_name cpath alg_xarray
                site st1)
      \<and> (config_product_step env scope output_type output_dict product_name st =
             Inr (st1\<lparr>events := events st1 @ [InsufficientCoverage output_type product_name]\<rparr>)
           \<longleftrightarrow> covg < m \<and> fname_covg < m)
      \<and> (covg = m \<longrightarrow>
           config_product_step env scope output_type output_dict product_name st =
             render_product env scope output_type output_dict product_name cpath alg_xarray
               site st1))
   \<and> (set variables_req \<subseteq> set (collect_all_vars env pad_sect_xarrays)
    \<and> single_source_alg_xarray env command_line_args product_name variables_req area pad_area
         pad_sect_xarrays resampled_read = Inr built
    \<and> coverage_values env command_line_args product_name built area = Inr (covg, fname_covg)
    \<and> minimum_is_number (get_minimum_coverage env product_name command_line_args)
         (add_new_attrs new_attrs built)
    \<and> m = effective_minimum_coverage (get_minimum_coverage env product_name command_line_args)
             (add_new_attrs new_attrs built)
    \<longrightarrow>
      single_source_product env command_line_args product_name variables_req xobjs area
          pad_area pad_sect_xarrays resampled_read new_attrs sst =
        (if covg < m \<and> fname_covg < m
         then Inr (sst\<lparr>ss_events :=
                         ss_events sst @ [InsufficientCoverage (ad_name area) product_name]\<rparr>)
         else single_source_render env command_line_args product_name area
                (add_new_attrs new_attrs built) sst)
      \<and> (single_source_product env command_line_args product_name variables_req xobjs area
             pad_area pad_sect_xarrays resampled_read new_attrs sst =
             Inr (sst\<lparr>ss_events :=
                        ss_events sst @ [InsufficientCoverage (ad_name area) product_name]\<rparr>)
           \<longleftrightarrow> covg < m \<and> fname_covg < m)
      \<and> (covg = m \<longrightarrow>
           single_source_product env command_line_args product_name variables_req xobjs area
               pad_area pad_sect_xarrays resampled_read new_attrs sst =
             single_source_render env command_line_args product_name area
               (add_new_attrs new_attrs built) sst))"
proof (intro conjI impI)
  assume a: "subscript (scope_pad_sect_xarrays scope) ''METADATA'' = Inr metadata
    \<and> source_name_of metadata = Inr source_name
    \<and> get_required_variables (alg_part env) product_name source_name = product_variables
    \<and> set product_variables \<subseteq> set (scope_all_vars scope)
    \<and> set_comparison_path env output_dict product_name output_type = (cpath, cmodule)
    \<and> process_sectored_data_output (plot_part env) (scope_pad_sect_xarrays scope)
         product_variables product_name output_dict (Some (scope_area_def scope)) = Inr []
    \<and> cached_alg_xarray env scope output_dict product_name product_variables
         (enter_ledger cpath cmodule st) = Inr (alg_xarray, site, st1)
    \<and> coverage_values env output_dict product_name alg_xarray (scope_area_def scope)
         = Inr (covg, fname_covg)
    \<and> minimum_is_number (get_minimum_coverage env product_name output_dict) alg_xarray
    \<and> m = effective_minimum_coverage (get_minimum_coverage env product_name output_dict)
             alg_xarray"
  have step: "config_product_step env scope output_type output_dict product_name st =
        (if covg < m \<and> fname_covg < m
         then Inr (st1\<lparr>events := events st1 @ [InsufficientCoverage output_type product_name]\<rparr>)
         else render_product env scope output_type output_dict product_name cpath alg_xarray
                site st1)"
    using a config_product_step_gate
      [of scope metadata source_name env product_name product_variables output_dict output_type
          cpath cmodule st alg_xarray site st1 covg fname_covg]
    by simp
  show "config_product_step env scope output_type output_dict product_name st =
        (if covg < m \<and> fname_covg < m
         then Inr (st1\<lparr>events := events st1 @ [InsufficientCoverage output_type product_name]\<rparr>)
         else render_product env scope output_type output_dict product_name cpath alg_xarray
                site st1)"
    by (rule step)
  show "config_product_step env scope output_type output_dict product_name st =
             Inr (st1\<lparr>events := events st1 @ [InsufficientCoverage output_type product_name]\<rparr>)
           \<longleftrightarrow> covg < m \<and> fname_covg < m"
    unfolding step by (simp add: render_product_not_skipped)
  show "config_product_step env scope output_type output_dict product_name st =
             render_product env scope output_type output_dict product_name cpath alg_xarray
               site st1" if "covg = m"
    unfolding step using that by simp
next
  assume a: "set variables_req \<subseteq> set (collect_all_vars env pad_sect_xarrays)
    \<and> single_source_alg_xarray env command_line_args product_name variables_req area pad_area
         pad_sect_xarrays resampled_read = Inr built
    \<and> coverage_values env command_line_args product_name built area = Inr (covg, fname_covg)
    \<and> minimum_is_number (get_minimum_coverage env product_name command_line_args)
         (add_new_attrs new_attrs built)
    \<and> m = effective_minimum_coverage (get_minimum_coverage env product_name command_line_args)
             (add_new_attrs new_attrs built)"
  have step: "single_source_product env command_line_args product_name variables_req xobjs area
          pad_area pad_sect_xarrays resampled_read new_attrs sst =
        (if covg < m \<and> fname_covg < m
         then Inr (sst\<lparr>ss_events :=
                         ss_events sst @ [InsufficientCoverage (ad_name area) product_name]\<rparr>)
         else single_source_render env command_line_args product_name area
                (add_new_attrs new_attrs built) sst)"
    using a single_source_product_gate
      [of variables_req env pad_sect_xarrays command_line_args product_name area pad_area
          resampled_read built covg fname_covg new_attrs xobjs sst]
    by simp
  show "single_source_product env command_line_args product_name variables_req xobjs area
          pad_area pad_sect_xarrays resampled_read new_attrs sst =
        (if covg < m \<and> fname_covg < m
         then Inr (sst\<lparr>ss_events :=
                         ss_events sst @ [InsufficientCoverage (ad_name area) product_name]\<rparr>)
         else single_source_render env command_line_args product_name area
                (add_new_attrs new_attrs built) sst)"
    by (rule step)
  show "single_source_product env command_line_args product_name variables_req xobjs area
             pad_area pad_sect_xarrays resampled_read new_attrs sst =
             Inr (sst\<lparr>ss_events :=
                        ss_events sst @ [InsufficientCoverage (ad_name area) product_name]\<rparr>)
           \<longleftrightarrow> covg < m \<and> fname_covg < m"
    unfolding step by (simp add: single_source_render_not_skipped)
  show "single_source_product env command_line_args product_name variables_req xobjs area
               pad_area pad_sect_xarrays resampled_read new_attrs sst =
             single_source_render env command_line_args product_name area
               (add_new_attrs new_attrs built) sst" if "covg = m"
    unfolding step using that by simp
qed

lemmas flow_eval =
  config_product_step_def cached_alg_xarray_def enter_ledger_def initialize_final_products_def
  map_entry_def process_sectored_data_output_def coverage_values_def coverage_gate_def
  render_product_def process_sector_outputs_def get_required_outputs_def
  single_source_product_def single_source_alg_xarray_def single_source_render_def
  add_new_attrs_def collect_all_vars_def minimum_is_number_def effective_minimum_coverage_def
  example_flow_env_def flow_plot_env_def interp_first_env_def image_output_def
  netcdf_output_def abi_xarrays_min20_def example_scope_def self_register_area_def
  empty_flow_state_def empty_single_state_def
  get_alg_xarray_def resolve_interp_def call_interp_def interpolate_variable_def
  interp_dataset_step_def apply_alg_after_interp_def finish_interp_first_def
  empty_dataset_def source_name_of_def set_variable_def get_plugin_def subscript_def
  ir_env_def ir_alg_plugin_def interp_in_place_def interp_into_def abi_xarrays_def
  static_area_def
  plot_data_def output_all_metadata_def check_products_def did_not_produce_def
  resolve_mpl_colors_info_def OUTPUT_FAMILIES_WITH_NO_OUTFNAMES_ARG_def
  remove_duplicates_def find_hook_def example_dup_env_def

theorem coverage_gate_skips_iff_both_below_minimum_witness:
  "config_product_step (example_flow_env 10 5) (example_scope static_area abi_xarrays) ''img''
      (image_output None) ''Infrared'' empty_flow_state
     = Inr \<lparr>pad_alg_xarrays = [],
            alg_xarrays = [(''Infrared'', infrared_dataset [])],
            builder_calls = [BuilderCall Sectored ''Infrared''],
            final_products =
              [(''no_comparison'',
                \<lparr>files = [''Infrared.imagery_clean''], database_writes = [],
                 compare_outputs_module = ''none''\<rparr>)],
            removed_products = [], saved_products = [], file_system = [], num_jobs = 1,
            events = [Produced ''img'' ''Infrared'']\<rparr>
   \<and> single_source_product (example_flow_env 10 5) (image_output None) ''Infrared''
        [''B14BT''] abi_xarrays static_area static_area abi_xarrays False
        [(''filename_extra_fields'', AFields [])] empty_single_state
     = Inr \<lparr>ss_final_products = [''Infrared.imagery_clean''], ss_removed_products = [],
            ss_saved_products = [], ss_database_writes = [], ss_file_system = [],
            ss_num_jobs = 1, ss_events = [Produced ''global'' ''Infrared'']\<rparr>
   \<and> config_product_step (example_flow_env 19 (39 / 2)) (example_scope static_area abi_xarrays_min20) ''img''
      (image_output None) ''Infrared'' empty_flow_state
     = Inr \<lparr>pad_alg_xarrays = [],
            alg_xarrays = [(''Infrared'', infrared_dataset [(''minimum_coverage'', ANum 20)])],
            builder_calls = [BuilderCall Sectored ''Infrared''],
            final_products =
              [(''no_comparison'',
                \<lparr>files = [], database_writes = [],
                 compare_outputs_module = ''none''\<rparr>)],
            removed_products = [], saved_products = [], file_system = [], num_jobs = 0,
            events = [InsufficientCoverage ''img'' ''Infrared'']\<rparr>
   \<and> single_source_product (example_flow_env 19 (39 / 2)) (image_output None) ''Infrared''
        [''B14BT''] abi_xarrays_min20 static_area static_area abi_xarrays_min20 False
        [(''filename_extra_fields'', AFields [])] empty_single_state
     = Inr \<lparr>ss_final_products = [], ss_removed_products = [],
            ss_saved_products = [], ss_database_writes = [], ss_file_system = [],
            ss_num_jobs = 0, ss_events = [InsufficientCoverage ''global'' ''Infrared'']\<rparr>
   \<and> config_product_step (example_flow_env 5 0) (example_scope static_area abi_xarrays_min20) ''img''
      (image_output (Some 5)) ''Infrared'' empty_flow_state
     = Inr \<lparr>pad_alg_xarrays = [],
            alg_xarrays = [(''Infrared'', infrared_dataset [(''minimum_coverage'', ANum 20)])],
            builder_calls = [BuilderCall Sectored ''Infrared''],
            final_products =
              [(''no_comparison'',
                \<lparr>files = [''Infrared.imagery_clean''], database_writes = [],
                 compare_outputs_module = ''none''\<rparr>)],
            removed_products = [], saved_products = [], file_system = [], num_jobs = 1,
            events = [Produced ''img'' ''Infrared'']\<rparr>
   \<and> single_source_product (example_flow_env 5 0) (image_output (Some 5)) ''Infrared''
        [''B14BT''] abi_xarrays_min20 static_area static_area abi_xarrays_min20 False
        [(''filename_extra_fields'', AFields [])] empty_single_state
     = Inr \<lparr>ss_final_products = [''Infrared.imagery_clean''], ss_removed_products = [],
            ss_saved_products = [], ss_database_writes = [], ss_file_system = [],
            ss_num_jobs = 1, ss_events = [Produced ''global'' ''Infrared'']\<rparr>"
  using coverage_gate_skips_iff_both_below_minimum
          [where env = "example_flow_env 10 5"
             and scope = "example_scope static_area abi_xarrays"
             and metadata = "\<lparr>variables = [], attrs = [(''source_name'', AStr ''abi'')], dims = []\<rparr>"
             and source_name = "''abi''" and product_name = "''Infrared''"
             and product_variables = "[''B14BT'']" and output_dict = "image_output None"
             and output_type = "''img''" and cpath = "''no_comparison''" and cmodule = "''none''"
             and st = empty_flow_state and alg_xarray = "infrared_dataset []"
             and site = Sectored
             and ?st1.0 = "\<lparr>pad_alg_xarrays = [],
            alg_xarrays = [(''Infrared'', infrared_dataset [])],
            builder_calls = [BuilderCall Sectored ''Infrared''],
            final_products =
              [(''no_comparison'',
                \<lparr>files = [], database_writes = [],
                 compare_outputs_module = ''none''\<rparr>)],
            removed_products = [], saved_products = [], file_system = [], num_jobs = 0,
            events = []\<rparr>"
             and covg = 10 and fname_covg = "5" and m = 10
             and variables_req = "[''B14BT'']" and pad_sect_xarrays = abi_xarrays
             and command_line_args = "image_output None" and area = static_area
             and pad_area = static_area and resampled_read = False
             and built = "infrared_dataset []"
             and new_attrs = "[(''filename_extra_fields'', AFields [])]"
             and xobjs = abi_xarrays and sst = empty_single_state]
        coverage_gate_skips_iff_both_below_minimum
          [where env = "example_flow_env 19 (39 / 2)"
             and scope = "example_scope static_area abi_xarrays_min20"
             and metadata = "\<lparr>variables = [], attrs = [(''source_name'', AStr ''abi'')], dims = []\<rparr>"
             and source_name = "''abi''" and product_name = "''Infrared''"
             and product_variables = "[''B14BT'']" and output_dict = "image_output None"
             and output_type = "''img''" and cpath = "''no_comparison''" and cmodule = "''none''"
             and st = empty_flow_state and alg_xarray = "infrared_dataset [(''minimum_coverage'', ANum 20)]"
             and site = Sectored
             and ?st1.0 = "\<lparr>pad_alg_xarrays = [],
            alg_xarrays = [(''Infrared'', infrared_dataset [(''minimum_coverage'', ANum 20)])],
            builder_calls = [BuilderCall Sectored ''Infrared''],
            final_products =
              [(''no_comparison'',
                \<lparr>files = [], database_writes = [],
                 compare_outputs_module = ''none''\<rparr>)],
            removed_products = [], saved_products = [], file_system = [], num_jobs = 0,
            events = []\<rparr>"
             and covg = 19 and fname_covg = "39 / 2" and m = 20
             and variables_req = "[''B14BT'']" and pad_sect_xarrays = abi_xarrays_min20
             and command_line_args = "image_output None" and area = static_area
             and pad_area = static_area and resampled_read = False
             and built = "infrared_dataset [(''minimum_coverage'', ANum 20)]"
             and new_attrs = "[(''filename_extra_fields'', AFields [])]"
             and xobjs = abi_xarrays_min20 and sst = empty_single_state]
        coverage_gate_skips_iff_both_below_minimum
          [where env = "example_flow_env 5 0"
             and scope = "example_scope static_area abi_xarrays_min20"
             and metadata = "\<lparr>variables = [], attrs = [(''source_name'', AStr ''abi'')], dims = []\<rparr>"
             and source_name = "''abi''" and product_name = "''Infrared''"
             and product_variables = "[''B14BT'']" and output_dict = "image_output (Some 5)"
             and output_type = "''img''" and cpath = "''no_comparison''" and cmodule = "''none''"
             and st = empty_flow_state and alg_xarray = "infrared_dataset [(''minimum_coverage'', ANum 20)]"
             and site = Sectored
             and ?st1.0 = "\<lparr>pad_alg_xarrays = [],
            alg_xarrays = [(''Infrared'', infrared_dataset [(''minimum_coverage'', ANum 20)])],
            builder_calls = [BuilderCall Sectored ''Infrared''],
            final_products =
              [(''no_comparison'',
                \<lparr>files = [], database_writes = [],
                 compare_outputs_module = ''none''\<rparr>)],
            removed_products = [], saved_products = [], file_system = [], num_jobs = 0,
            events = []\<rparr>"
             and covg = 5 and fname_covg = "0" and m = 5
             and variables_req = "[''B14BT'']" and pad_sect_xarrays = abi_xarrays_min20
             and command_line_args = "image_output (Some 5)" and area = static_area
             and pad_area = static_area and resampled_read = False
             and built = "infrared_dataset [(''minimum_coverage'', ANum 20)]"
             and new_attrs = "[(''filename_extra_fields'', AFields [])]"
             and xobjs = abi_xarrays_min20 and sst = empty_single_state]
  by (simp add: flow_eval infrared_dataset_def)

subsection \<open>Memoization of the builder in config\_based\<close>

















end
